theory Spec2Isabelle
  imports Main "HOL-Library.Word"
begin

unbundle bit_operations_syntax

section \<open>Return codes\<close>

text \<open>
  The driver returns \<open>0\<close> (or a length) on success and a negative errno on failure.
  The errno values that occur in the modelled files are the constructors of \<open>errno\<close>;
  a function returning \<open>int\<close> is modelled with result type \<open>errno + 'a\<close>, \<open>Inl e\<close>
  standing for \<open>-e\<close>. \<open>EIO\<close> stands for any other failure reported by the bus
  primitive or by a GPIO read. \<open>Errno n\<close> is the error number \<open>n\<close> when it is none
  of the named ones.
\<close>

datatype errno =
  EPERM | ENOENT | EINTR | EIO | EBADF | EAGAIN | ENOMEM | EFAULT | EBUSY | EEXIST
  | EINVAL | EPROTO | EMSGSIZE | EOPNOTSUPP | Errno nat

text \<open>The numbers of the named errors (errno-base.h and errno.h of the kernel), and
  an \<open>int\<close> return code read as the driver's callers read it: negative for an error.\<close>

definition errno_of_nat :: "nat \<Rightarrow> errno" where
  "errno_of_nat n =
     (if n = 1 then EPERM else if n = 2 then ENOENT else if n = 4 then EINTR
      else if n = 5 then EIO else if n = 9 then EBADF else if n = 11 then EAGAIN
      else if n = 12 then ENOMEM else if n = 14 then EFAULT else if n = 16 then EBUSY
      else if n = 17 then EEXIST else if n = 22 then EINVAL else if n = 71 then EPROTO
      else if n = 90 then EMSGSIZE else if n = 95 then EOPNOTSUPP else Errno n)"

definition int_rc :: "int \<Rightarrow> errno + nat" where
  "int_rc rc = (if rc < 0 then Inl (errno_of_nat (nat (- rc))) else Inr (nat rc))"

type_synonym u8 = "8 word"
type_synonym u16 = "16 word"

section \<open>Message dispatch table (qm35\_transport.c)\<close>

text \<open>\<open>enum qm35_transport_msg_type\<close> and \<open>enum qm35_transport_priority\<close>, as the
  unsigned values the code computes the table index from.\<close>

definition QM35_TRANSPORT_MSG_RESERVED_HSSPI :: nat where "QM35_TRANSPORT_MSG_RESERVED_HSSPI = 0"
definition QM35_TRANSPORT_MSG_BOOTLOADER :: nat where "QM35_TRANSPORT_MSG_BOOTLOADER = 1"
definition QM35_TRANSPORT_MSG_UCI :: nat where "QM35_TRANSPORT_MSG_UCI = 2"
definition QM35_TRANSPORT_MSG_COREDUMP :: nat where "QM35_TRANSPORT_MSG_COREDUMP = 3"
definition QM35_TRANSPORT_MSG_LOG :: nat where "QM35_TRANSPORT_MSG_LOG = 4"
definition QM35_TRANSPORT_MSG_QTRACE :: nat where "QM35_TRANSPORT_MSG_QTRACE = 5"
definition QM35_TRANSPORT_MSG_MAX :: nat where "QM35_TRANSPORT_MSG_MAX = 6"

definition QM35_TRANSPORT_PRIO_HIGH :: nat where "QM35_TRANSPORT_PRIO_HIGH = 0"
definition QM35_TRANSPORT_PRIO_NORMAL :: nat where "QM35_TRANSPORT_PRIO_NORMAL = 1"
definition QM35_TRANSPORT_PRIO_COUNT :: nat where "QM35_TRANSPORT_PRIO_COUNT = 2"

text \<open>A receive callback is a function pointer: the bypass handler of qm35\_bypass.c or
  the handler of some client module, told apart by a number. \<open>None\<close> is \<open>NULL\<close>.
  The \<open>void *\<close> context is an address.\<close>

datatype recv_cb = Qm35_bypass_event_cb | Client_cb nat

record qm35_transport_recv_handler =
  cb :: "recv_cb option"
  data :: nat

text \<open>\<open>struct sk_buff\<close>: the payload (\<open>skb->len\<close> is its length) and the three
  control bytes \<open>cb[0..2]\<close> the transport fills in.\<close>

record sk_buff =
  skb_data :: "u8 list"
  skb_cb0 :: u8
  skb_cb1 :: u8
  skb_cb2 :: u8

text \<open>\<open>struct qm35_bypass_channel\<close> and \<open>struct qm35_bypass\<close> (qm35\_bypass.h).
  The listener is a function pointer, \<open>None\<close> for \<open>NULL\<close>; \<open>packets\<close> is the
  list headed by \<open>hnd->packets\<close>, first entry first.\<close>

record qm35_bypass_channel =
  listener :: "nat option"
  listener_data :: nat
  expected_type :: nat
  packets :: "sk_buff list"

record qm35_bypass =
  opened :: bool
  owner :: int
  chan :: qm35_bypass_channel

text \<open>\<open>struct qm35\<close>: the handler table \<open>rx_handlers[MAX_RX_HANDLERS]\<close>, indexed by
  \<open>type * QM35_TRANSPORT_PRIO_COUNT + prio\<close>, and the bypass data.\<close>

record qm35 =
  rx_handlers :: "nat \<Rightarrow> qm35_transport_recv_handler"
  bypass_data :: qm35_bypass

definition qm35_transport_get_registered ::
  "qm35 \<Rightarrow> nat \<Rightarrow> errno + qm35_transport_recv_handler" where
  "qm35_transport_get_registered q type =
     (if type \<ge> QM35_TRANSPORT_MSG_MAX then Inl EINVAL
      else
        let idx = type * QM35_TRANSPORT_PRIO_COUNT + QM35_TRANSPORT_PRIO_HIGH;
            idx = (if cb (rx_handlers q idx) = None then idx + 1 else idx)
        in if cb (rx_handlers q idx) \<noteq> None then Inr (rx_handlers q idx)
           else Inl ENOENT)"

text \<open>What \<open>qm35_transport_event\<close> does with the buffer it allocated: it hands it to
  a handler (\<open>handler.cb(handler.data, skb)\<close>) or frees it (\<open>kfree_skb\<close>).\<close>

datatype skb_effect = Call_handler recv_cb nat sk_buff | Kfree_skb sk_buff

text \<open>
  \<open>qm35_transport_event\<close>. The two calls out of the file are inputs: \<open>alloc_ok\<close>
  says whether \<open>alloc_skb\<close> returned a buffer, and \<open>recv\<close> is what the transport's
  \<open>recv\<close> callback returned: an error, or the received payload (its length is the
  return value), the message type and the flags. The result is the return code and the
  effects on the buffer, in order. \<open>qm35_transport_get_registered\<close> only returns a
  handler whose \<open>cb\<close> is set, so the \<open>None\<close> branch below is never taken.
\<close>

definition qm35_transport_event ::
  "qm35 \<Rightarrow> nat \<Rightarrow> bool \<Rightarrow> (errno + u8 list \<times> nat \<times> int) \<Rightarrow> (errno + unit) \<times> skb_effect list" where
  "qm35_transport_event q transport_event alloc_ok recv =
     (if \<not> alloc_ok then (Inl ENOMEM, [])
      else
        let skb = \<lparr>skb_data = [], skb_cb0 = 0, skb_cb1 = 0, skb_cb2 = 0\<rparr>
        in case recv of
             Inl e \<Rightarrow> (Inl e, [Kfree_skb skb])
           | Inr (payload, type, flags) \<Rightarrow>
               let skb = skb\<lparr>skb_data := payload, skb_cb0 := of_nat type,
                             skb_cb1 := of_int flags, skb_cb2 := of_nat transport_event\<rparr>
               in (case qm35_transport_get_registered q type of
                     Inl e \<Rightarrow> (Inl EOPNOTSUPP, [Kfree_skb skb])
                   | Inr handler \<Rightarrow>
                       (case cb handler of
                          Some f \<Rightarrow> (Inr (), [Call_handler f (data handler) skb])
                        | None \<Rightarrow> (Inl EOPNOTSUPP, [Kfree_skb skb]))))"

definition qm35_transport_register ::
  "qm35 \<Rightarrow> nat \<Rightarrow> nat \<Rightarrow> recv_cb option \<Rightarrow> nat \<Rightarrow> (errno + unit) \<times> qm35" where
  "qm35_transport_register q type prio callback d =
     (if callback = None \<or> type \<ge> QM35_TRANSPORT_MSG_MAX \<or> prio \<ge> QM35_TRANSPORT_PRIO_COUNT
      then (Inl EINVAL, q)
      else
        let idx = type * QM35_TRANSPORT_PRIO_COUNT + prio
        in if cb (rx_handlers q idx) = None
           then (Inr (), q\<lparr>rx_handlers := (rx_handlers q)(idx := \<lparr>cb = callback, data = d\<rparr>)\<rparr>)
           else (Inl EEXIST, q))"

definition qm35_transport_unregister ::
  "qm35 \<Rightarrow> nat \<Rightarrow> nat \<Rightarrow> recv_cb option \<Rightarrow> (errno + unit) \<times> qm35" where
  "qm35_transport_unregister q type prio callback =
     (if callback = None \<or> type \<ge> QM35_TRANSPORT_MSG_MAX \<or> prio \<ge> QM35_TRANSPORT_PRIO_COUNT
      then (Inl EINVAL, q)
      else
        let idx = type * QM35_TRANSPORT_PRIO_COUNT + prio
        in if cb (rx_handlers q idx) = callback
           then (Inr (), q\<lparr>rx_handlers := (rx_handlers q)(idx := \<lparr>cb = None, data = 0\<rparr>)\<rparr>)
           else (Inl EBADF, q))"

text \<open>The device structure as allocated (zero-filled): no handler, bypass closed.\<close>

definition qm35_zeroed :: qm35 where
  "qm35_zeroed =
     \<lparr>rx_handlers = (\<lambda>_. \<lparr>cb = None, data = 0\<rparr>),
      bypass_data = \<lparr>opened = False, owner = 0,
                     chan = \<lparr>listener = None, listener_data = 0, expected_type = 0,
                             packets = []\<rparr>\<rparr>\<rparr>"

section \<open>Exclusive bypass channel (qm35\_bypass.c)\<close>

text \<open>A \<open>qm35_bypass_handle\<close> is a pointer: the channel of the device,
  \<open>NULL\<close>, or an \<open>ERR_PTR\<close>.\<close>

datatype qm35_bypass_handle = Hnd_chan | Hnd_null | Hnd_err errno

definition IS_ERR_OR_NULL :: "qm35_bypass_handle \<Rightarrow> bool" where
  "IS_ERR_OR_NULL hnd = (hnd \<noteq> Hnd_chan)"

text \<open>The address of \<open>qm35->bypass_data.chan\<close>, given to the dispatch table as the
  context of the bypass handler: some non-null address.\<close>

definition bypass_chan_addr :: nat where "bypass_chan_addr = 1"

text \<open>\<open>enum qm35_bypass_events\<close> and \<open>enum qm35_bypass_actions\<close>.\<close>

definition QM35_BYPASS_IRQ :: nat where "QM35_BYPASS_IRQ = 0"

definition QM35_BYPASS_ACTION_RESET :: nat where "QM35_BYPASS_ACTION_RESET = 0"
definition QM35_BYPASS_ACTION_FWUPD :: nat where "QM35_BYPASS_ACTION_FWUPD = 1"
definition QM35_BYPASS_ACTION_POWER :: nat where "QM35_BYPASS_ACTION_POWER = 2"
definition QM35_BYPASS_ACTION_MSG_TYPE :: nat where "QM35_BYPASS_ACTION_MSG_TYPE = 3"

text \<open>
  What a bypass function does besides updating the device structure, in order: packets
  freed, the listener called, the module reference dropped, a warning printed, calls
  into the transport callbacks (whose return values are inputs of the model), values
  stored through the \<open>type\<close> and \<open>flags\<close> pointers, bytes copied to the user buffer.
\<close>

datatype bypass_effect =
    Free_skb sk_buff
  | Listener_call nat nat nat
  | Module_put
  | Dev_warn nat
  | Transport_start
  | Transport_stop
  | Transport_reset bool
  | Transport_fw_update
  | Transport_power int
  | Transport_send nat "u8 list" nat
  | Store_type u8
  | Store_flags u8
  | Copy_to_user "u8 list"

text \<open>\<open>qm35_bypass_check\<close>; \<open>tgid\<close> is \<open>current->tgid\<close>, the caller's process
  group.\<close>

definition qm35_bypass_check :: "qm35_bypass \<Rightarrow> int \<Rightarrow> errno + unit" where
  "qm35_bypass_check bypass tgid =
     (if \<not> opened bypass then Inl EBADF
      else if owner bypass \<noteq> tgid then Inl EPERM
      else Inr ())"

definition upd_chan :: "(qm35_bypass_channel \<Rightarrow> qm35_bypass_channel) \<Rightarrow> qm35 \<Rightarrow> qm35" where
  "upd_chan f q = q\<lparr>bypass_data := (bypass_data q)\<lparr>chan := f (chan (bypass_data q))\<rparr>\<rparr>"

definition qm35_bypass_event_cb :: "qm35 \<Rightarrow> sk_buff \<Rightarrow> qm35 \<times> bypass_effect list" where
  "qm35_bypass_event_cb q skb =
     (let hnd = chan (bypass_data q)
      in if unat (skb_cb0 skb) \<noteq> expected_type hnd then (q, [Free_skb skb])
         else (upd_chan (\<lambda>c. c\<lparr>packets := packets c @ [skb]\<rparr>) q,
               (case listener hnd of
                  Some l \<Rightarrow> [Listener_call l (listener_data hnd) QM35_BYPASS_IRQ]
                | None \<Rightarrow> [])))"

definition qm35_bypass_set_expected :: "qm35 \<Rightarrow> nat \<Rightarrow> qm35" where
  "qm35_bypass_set_expected q expected =
     (let old = expected_type (chan (bypass_data q))
      in if expected = old then q
         else
           let q1 = (if old \<noteq> QM35_TRANSPORT_MSG_MAX
                     then snd (qm35_transport_unregister q old QM35_TRANSPORT_PRIO_HIGH
                                 (Some Qm35_bypass_event_cb))
                     else q);
               q2 = snd (qm35_transport_register q1 expected QM35_TRANSPORT_PRIO_HIGH
                           (Some Qm35_bypass_event_cb) bypass_chan_addr)
           in upd_chan (\<lambda>c. c\<lparr>expected_type := expected\<rparr>) q2)"

definition qm35_bypass_cleanup_hnd :: "qm35 \<Rightarrow> nat \<times> qm35 \<times> bypass_effect list" where
  "qm35_bypass_cleanup_hnd q =
     (let hnd = chan (bypass_data q);
          q1 = (if expected_type hnd \<noteq> QM35_TRANSPORT_MSG_MAX
                then snd (qm35_transport_unregister q (expected_type hnd)
                            QM35_TRANSPORT_PRIO_HIGH (Some Qm35_bypass_event_cb))
                else q);
          rc = length (packets hnd)
      in (rc,
          upd_chan (\<lambda>c. c\<lparr>packets := [], expected_type := QM35_TRANSPORT_MSG_MAX,
                           listener := None, listener_data := 0\<rparr>) q1,
          map Free_skb (packets hnd) @ [Module_put]))"

definition qm35_bypass_cleanup :: "qm35 \<Rightarrow> nat \<times> qm35 \<times> bypass_effect list" where
  "qm35_bypass_cleanup q =
     (case qm35_bypass_cleanup_hnd q of
        (rc, q1, eff) \<Rightarrow>
          (rc, q1\<lparr>bypass_data := (bypass_data q1)\<lparr>opened := False, owner := 0\<rparr>\<rparr>, eff))"

text \<open>
  \<open>qm35_bypass_open\<close>. Inputs besides the arguments: the caller's \<open>tgid\<close>, whether
  \<open>try_module_get\<close> succeeded, and what \<open>qm35_transport_start\<close> returned.
\<close>

definition qm35_bypass_open ::
  "qm35 \<Rightarrow> nat option \<Rightarrow> nat \<Rightarrow> int \<Rightarrow> bool \<Rightarrow> (errno + unit)
     \<Rightarrow> qm35_bypass_handle \<times> qm35 \<times> bypass_effect list" where
  "qm35_bypass_open q cb_arg priv_data tgid module_get_ok start_rc =
     (if cb_arg = None then (Hnd_err EINVAL, q, [])
      else if opened (bypass_data q) then (Hnd_err EBUSY, q, [])
      else if \<not> module_get_ok then (Hnd_err ENOENT, q, [])
      else
        let q1 = upd_chan (\<lambda>c. c\<lparr>packets := [], listener := cb_arg,
                                  listener_data := priv_data,
                                  expected_type := QM35_TRANSPORT_MSG_MAX\<rparr>) q;
            q2 = qm35_bypass_set_expected q1 QM35_TRANSPORT_MSG_UCI;
            q3 = q2\<lparr>bypass_data := (bypass_data q2)\<lparr>owner := tgid, opened := True\<rparr>\<rparr>
        in (case start_rc of
              Inr _ \<Rightarrow> (Hnd_chan, q3, [Transport_start])
            | Inl e \<Rightarrow>
                (case qm35_bypass_cleanup q3 of
                   (n, q4, eff) \<Rightarrow> (Hnd_err e, q4, Transport_start # eff))))"

definition qm35_bypass_queue_check :: "qm35 \<Rightarrow> qm35_bypass_handle \<Rightarrow> errno + bool" where
  "qm35_bypass_queue_check q hnd =
     (if IS_ERR_OR_NULL hnd then Inl EINVAL
      else Inr (packets (chan (bypass_data q)) \<noteq> []))"

definition qm35_bypass_close ::
  "qm35 \<Rightarrow> qm35_bypass_handle \<Rightarrow> int \<Rightarrow> (errno + unit) \<times> qm35 \<times> bypass_effect list" where
  "qm35_bypass_close q hnd tgid =
     (if IS_ERR_OR_NULL hnd then (Inl EINVAL, q, [])
      else case qm35_bypass_check (bypass_data q) tgid of
             Inl e \<Rightarrow> (Inl e, q, [])
           | Inr _ \<Rightarrow>
               (case qm35_bypass_cleanup q of
                  (rc, q1, eff) \<Rightarrow>
                    (Inr (), q1,
                     eff @ (if rc \<noteq> 0 then [Dev_warn rc] else []) @ [Transport_stop])))"
text \<open>
  \<open>qm35_bypass_control\<close>. \<open>param\<close> is the \<open>long *\<close> argument, \<open>None\<close> for
  \<open>NULL\<close>; \<open>op_rc\<close> is what the transport callback behind the action returned.
  The \<open>long\<close> is narrowed where it is used: \<open>qm35_transport_reset\<close> takes a
  \<open>bool\<close> (is it non-zero), \<open>qm35_transport_power\<close> an \<open>int\<close> (its low 32 bits,
  signed), and stored into the \<open>enum\<close> expected type it keeps its low 32 bits. The
  expected type is returned through the \<open>int rc\<close>, so from \<open>2 ^ 31\<close> it comes out
  negative.
\<close>

definition qm35_bypass_control ::
  "qm35 \<Rightarrow> qm35_bypass_handle \<Rightarrow> nat \<Rightarrow> int option \<Rightarrow> int \<Rightarrow> (errno + nat)
     \<Rightarrow> (errno + nat) \<times> qm35 \<times> bypass_effect list" where
  "qm35_bypass_control q hnd action param tgid op_rc =
     (if IS_ERR_OR_NULL hnd then (Inl EINVAL, q, [])
      else case qm35_bypass_check (bypass_data q) tgid of
             Inl e \<Rightarrow> (Inl e, q, [])
           | Inr _ \<Rightarrow>
               (if (action = QM35_BYPASS_ACTION_RESET \<or> action = QM35_BYPASS_ACTION_POWER)
                   \<and> param = None
                then (Inl EINVAL, q, [])
                else if action = QM35_BYPASS_ACTION_RESET then
                  (op_rc, qm35_bypass_set_expected q QM35_TRANSPORT_MSG_UCI,
                   [Transport_reset (case param of Some p \<Rightarrow> p \<noteq> 0 | None \<Rightarrow> False)])
                else if action = QM35_BYPASS_ACTION_MSG_TYPE then
                  (int_rc (sint (word_of_nat (expected_type (chan (bypass_data q))) :: 32 word)),
                   (case param of
                      Some p \<Rightarrow> qm35_bypass_set_expected q (nat (p mod 2 ^ 32))
                    | None \<Rightarrow> q),
                   [])
                else if action = QM35_BYPASS_ACTION_FWUPD then
                  (op_rc, q, [Transport_fw_update])
                else if action = QM35_BYPASS_ACTION_POWER then
                  (op_rc, q,
                   [Transport_power
                      (case param of Some p \<Rightarrow> sint (word_of_int p :: 32 word) | None \<Rightarrow> 0)])
                else (Inl EOPNOTSUPP, q, [Dev_warn action])))"

text \<open>\<open>qm35_bypass_send\<close>. \<open>buffer\<close> is \<open>None\<close> for a \<open>NULL\<close> pointer;
  \<open>send_rc\<close> is what the transport's \<open>send\<close> callback returned.\<close>

definition qm35_bypass_send ::
  "qm35 \<Rightarrow> qm35_bypass_handle \<Rightarrow> u8 list option \<Rightarrow> nat \<Rightarrow> int \<Rightarrow> (errno + unit)
     \<Rightarrow> (errno + unit) \<times> qm35 \<times> bypass_effect list" where
  "qm35_bypass_send q hnd buffer len tgid send_rc =
     (if IS_ERR_OR_NULL hnd \<or> buffer = None \<or> len = 0 then (Inl EINVAL, q, [])
      else case qm35_bypass_check (bypass_data q) tgid of
             Inl e \<Rightarrow> (Inl e, q, [])
           | Inr _ \<Rightarrow>
               (send_rc, q,
                [Transport_send (expected_type (chan (bypass_data q)))
                   (case buffer of Some buf \<Rightarrow> buf | None \<Rightarrow> []) len]))"

text \<open>
  \<open>qm35_bypass_recv\<close>. \<open>type_ok\<close> and \<open>flags_ok\<close> say that the \<open>type\<close> and
  \<open>flags\<close> pointers are not \<open>NULL\<close>; \<open>copy_ok\<close> says that \<open>copy_to_user\<close>
  copied everything. The packet at the head of the list is the object \<open>skb_pull\<close>
  shortens: while it stays in the list, the list holds the shortened packet.
\<close>

definition qm35_bypass_recv ::
  "qm35 \<Rightarrow> qm35_bypass_handle \<Rightarrow> nat \<Rightarrow> bool \<Rightarrow> bool \<Rightarrow> int \<Rightarrow> bool
     \<Rightarrow> (errno + nat) \<times> qm35 \<times> bypass_effect list" where
  "qm35_bypass_recv q hnd len type_ok flags_ok tgid copy_ok =
     (if IS_ERR_OR_NULL hnd \<or> \<not> type_ok \<or> \<not> flags_ok then (Inl EINVAL, q, [])
      else case qm35_bypass_check (bypass_data q) tgid of
             Inl e \<Rightarrow> (Inl e, q, [])
           | Inr _ \<Rightarrow>
               (case packets (chan (bypass_data q)) of
                  [] \<Rightarrow> (Inl EAGAIN, q, [])
                | skb # rest \<Rightarrow>
                    let stores = [Store_type (skb_cb0 skb), Store_flags (skb_cb1 skb)];
                        skb_len = length (skb_data skb);
                        len = (if len > skb_len then skb_len else len);
                        finished = (len = skb_len);
                        q1 = (if finished then upd_chan (\<lambda>c. c\<lparr>packets := rest\<rparr>) q else q)
                    in if \<not> copy_ok then (Inl EFAULT, q1, stores)
                       else
                         let skb' = skb\<lparr>skb_data := drop len (skb_data skb)\<rparr>;
                             q2 = (if finished then q1
                                   else upd_chan (\<lambda>c. c\<lparr>packets := skb' # rest\<rparr>) q1)
                         in (Inr len, q2,
                             stores @ [Copy_to_user (take len (skb_data skb))]
                               @ (if skb_data skb' = [] then [Free_skb skb'] else []))))"

text \<open>The device after process group \<open>tgid\<close> has opened the bypass channel of a
  freshly allocated device (listener 7, the transport started without error).\<close>

definition bypass_opened_by :: "int \<Rightarrow> qm35" where
  "bypass_opened_by tgid =
     fst (snd (qm35_bypass_open qm35_zeroed (Some 7) 0 tgid True (Inr ())))"

section \<open>HSSPI framing engine (qm35\_hsspi.h, qm35\_hsspi.c)\<close>

definition HSSPI_HOST_RD :: u8 where "HSSPI_HOST_RD = 0x20"
definition HSSPI_HOST_PRD :: u8 where "HSSPI_HOST_PRD = 0x40"
definition HSSPI_HOST_WR :: u8 where "HSSPI_HOST_WR = 0x80"

definition HSSPI_SOC_ERR :: u8 where "HSSPI_SOC_ERR = 0x10"
definition HSSPI_SOC_RDY :: u8 where "HSSPI_SOC_RDY = 0x20"
definition HSSPI_SOC_OA :: u8 where "HSSPI_SOC_OA = 0x40"
definition HSSPI_SOC_ODW :: u8 where "HSSPI_SOC_ODW = 0x80"

definition QM35_HSSPI_RETRY_COUNT :: nat where "QM35_HSSPI_RETRY_COUNT = 3"
definition QM35_HSSPI_RETRY_DELAY_US :: nat where "QM35_HSSPI_RETRY_DELAY_US = 50"
definition QM35_WAKEUP_DURATION_US :: nat where "QM35_WAKEUP_DURATION_US = 500"
definition QM35_WAKEUP_DELAY_US :: nat where "QM35_WAKEUP_DELAY_US = 5000"

text \<open>\<open>QMSPI_COMBINED_WRITE\<close> of \<open>enum qm35_spi_debug_flags\<close>, \<open>BIT(5)\<close>.\<close>

definition QMSPI_COMBINED_WRITE :: "32 word" where "QMSPI_COMBINED_WRITE = 0x20"

text \<open>\<open>struct qm35_hsspi_header\<close>.\<close>

record qm35_hsspi_header =
  flags :: u8
  ul_value :: u8
  hdr_length :: u16

text \<open>\<open>struct qm35_spi_work_params\<close>. A buffer pointer is \<open>None\<close> when \<open>NULL\<close>;
  of the receive buffer only whether it is \<open>NULL\<close> matters.\<close>

record qm35_spi_work_params =
  data_out :: "u8 list option"
  data_in :: bool
  p_size :: nat
  p_type :: nat
  p_flags :: int
  wakeup :: bool

text \<open>
  The hardware is an input of the model. The \<open>k\<close>-th read of the hardware, a
  \<open>spi_sync\<close> or a \<open>gpiod_get_value\<close>, gets the \<open>k\<close>-th reply: for \<open>spi_sync\<close> an
  error or the header and payload bytes clocked in, for \<open>gpiod_get_value\<close> an error
  or the level of the line.
\<close>

record bus_reply =
  spi_result :: "errno + qm35_hsspi_header \<times> u8 list"
  gpio_result :: "errno + bool"

datatype gpio_line = Ready_gpio | Wakeup_gpio | Exton_gpio

text \<open>
  What the driver does to the hardware, in order, with the trace points that mark a
  wake-up and the entry of send and recv. \<open>Spi_sync txh buf n r\<close>: one message with the
  header \<open>txh\<close> sent (\<open>None\<close>: an empty header transfer), a data transfer of \<open>n\<close>
  bytes sending \<open>buf\<close> (\<open>n = 0\<close>: no data transfer), and the reply \<open>r\<close>.
\<close>

datatype hw_event =
    Trace_hsspi_wakeup
  | Trace_hsspi_send
  | Trace_hsspi_recv nat
  | Gpio_set gpio_line bool
  | Usleep_range nat nat
  | Spi_sync "qm35_hsspi_header option" "u8 list" nat "errno + qm35_hsspi_header \<times> u8 list"
  | Pm_idle

text \<open>
  \<open>struct qm35_spi\<close>: which GPIOs are defined, the work parameters and state flags;
  the module parameters \<open>qm35_hsspi_delay_us\<close> and \<open>qm35_debug_flags\<close>; and the
  hardware: the replies to come (\<open>bus\<close>), how many were consumed (\<open>bus_pos\<close>) and
  the log of what was done (\<open>hw_log\<close>).
\<close>

record qm35_spi =
  ready_gpio :: bool
  wakeup_gpio :: bool
  exton_gpio :: bool
  send_params :: qm35_spi_work_params
  work_send_ret :: "errno + unit"
  prd_done :: bool
  should_read :: bool
  should_write :: bool
  prd_length :: nat
  qm35_hsspi_delay_us :: "32 word"
  qm35_debug_flags :: "32 word"
  bus :: "nat \<Rightarrow> bus_reply"
  bus_pos :: nat
  hw_log :: "hw_event list"

definition log_event :: "hw_event \<Rightarrow> qm35_spi \<Rightarrow> qm35_spi" where
  "log_event e s = s\<lparr>hw_log := hw_log s @ [e]\<rparr>"

definition usleep_range :: "nat \<Rightarrow> nat \<Rightarrow> qm35_spi \<Rightarrow> qm35_spi" where
  "usleep_range lo hi s = log_event (Usleep_range lo hi) s"

definition gpiod_set_value :: "gpio_line \<Rightarrow> bool \<Rightarrow> qm35_spi \<Rightarrow> qm35_spi" where
  "gpiod_set_value line v s = log_event (Gpio_set line v) s"

definition gpiod_get_value :: "gpio_line \<Rightarrow> qm35_spi \<Rightarrow> (errno + bool) \<times> qm35_spi" where
  "gpiod_get_value line s = (gpio_result (bus s (bus_pos s)), s\<lparr>bus_pos := bus_pos s + 1\<rparr>)"

definition spi_sync ::
  "qm35_hsspi_header option \<Rightarrow> u8 list \<Rightarrow> nat \<Rightarrow> qm35_spi
     \<Rightarrow> (errno + qm35_hsspi_header \<times> u8 list) \<times> qm35_spi" where
  "spi_sync txh buf n s =
     (let r = spi_result (bus s (bus_pos s))
      in (r, log_event (Spi_sync txh buf n r) (s\<lparr>bus_pos := bus_pos s + 1\<rparr>)))"

text \<open>\<open>qm35_hsspi_delay\<close>. The module parameter is a \<open>u32\<close>, and the upper bound
  \<open>qm35_hsspi_delay_us * 2\<close> is computed in 32 bits.\<close>

definition qm35_hsspi_delay :: "qm35_spi \<Rightarrow> qm35_spi" where
  "qm35_hsspi_delay s =
     (if qm35_hsspi_delay_us s \<noteq> 0
      then usleep_range (unat (qm35_hsspi_delay_us s)) (unat (qm35_hsspi_delay_us s * 2)) s
      else s)"

text \<open>
  \<open>qm35_hsspi_wakeup\<close>. \<open>rc\<close> starts as \<open>!force\<close> and is replaced by the level of
  the EXTON line when that line is defined (by 0 when reading it fails); a non-zero
  \<open>rc\<close> returns at once.
\<close>

definition qm35_hsspi_wakeup :: "qm35_spi \<Rightarrow> bool \<Rightarrow> (errno + unit) \<times> qm35_spi" where
  "qm35_hsspi_wakeup s force =
     (case (if exton_gpio s
            then (case gpiod_get_value Exton_gpio s of
                    (Inl e, s') \<Rightarrow> (False, s')
                  | (Inr v, s') \<Rightarrow> (v, s'))
            else (\<not> force, s)) of
        (rc, s1) \<Rightarrow>
          if rc then (Inr (), s1)
          else
            let s2 = log_event Trace_hsspi_wakeup s1
            in case (if wakeup_gpio s2
                     then (Inr (),
                           gpiod_set_value Wakeup_gpio False
                             (usleep_range QM35_WAKEUP_DURATION_US (QM35_WAKEUP_DURATION_US + 100)
                                (gpiod_set_value Wakeup_gpio True s2)))
                     else (case spi_sync None [] 0 s2 of
                             (Inl e, s') \<Rightarrow> (Inl e, s')
                           | (Inr _, s') \<Rightarrow> (Inr (), s'))) of
                 (rc', s3) \<Rightarrow>
                   (rc', usleep_range QM35_WAKEUP_DELAY_US (QM35_WAKEUP_DELAY_US * 3 div 2) s3))"

text \<open>
  \<open>qm35_hsspi_wait_ready\<close>, as compiled without \<open>QM35_HSSPI_WAIT_SPI\<close>: without a
  READY line the device is assumed ready; with one, the line is polled up to
  \<open>count = 1000 / 10\<close> times. \<open>wait_ready_loop\<close> is the \<open>while (count)\<close> loop
  together with the choice of \<open>ret\<close> that follows it.
\<close>

fun wait_ready_loop :: "nat \<Rightarrow> qm35_spi \<Rightarrow> (errno + unit) \<times> qm35_spi" where
  "wait_ready_loop 0 s = (Inl EAGAIN, s)"
| "wait_ready_loop (Suc count) s =
     (case gpiod_get_value Ready_gpio s of
        (Inl e, s1) \<Rightarrow> (Inl e, s1)
      | (Inr ready, s1) \<Rightarrow>
          if ready then (Inr (), s1)
          else wait_ready_loop count (usleep_range 10 11 s1))"

definition qm35_hsspi_wait_ready :: "qm35_spi \<Rightarrow> (errno + unit) \<times> qm35_spi" where
  "qm35_hsspi_wait_ready s =
     (if \<not> ready_gpio s then (Inr (), qm35_hsspi_delay s)
      else case wait_ready_loop (1000 div 10) s of
             (ret, s1) \<Rightarrow> (ret, qm35_hsspi_delay s1))"
text \<open>
  \<open>qm35_hsspi_prd\<close>: the header-only PRE-READ exchange. Returns the return code and
  the header received (\<open>None\<close> when the exchange failed and nothing was received).
\<close>

definition qm35_hsspi_prd ::
  "qm35_spi \<Rightarrow> bool \<Rightarrow> (errno + unit) \<times> qm35_hsspi_header option \<times> qm35_spi" where
  "qm35_hsspi_prd s check =
     (let sent = \<lparr>flags = (if check then 0 else HSSPI_HOST_PRD), ul_value = 0, hdr_length = 0\<rparr>
      in case spi_sync (Some sent) [] 0 s of
           (Inl e, s1) \<Rightarrow> (Inl e, None, s1)
         | (Inr (recv, _), s1) \<Rightarrow>
             if check then (Inr (), Some recv, s1)
             else if flags recv AND HSSPI_SOC_ODW = 0 \<or> hdr_length recv = 0
             then (Inl EAGAIN, Some recv, s1)
             else (Inr (), Some recv,
                   s1\<lparr>prd_length := unat (hdr_length recv), prd_done := True\<rparr>))"

text \<open>
  \<open>qm35_hsspi_send\<close>. \<open>payload\<close> is the \<open>data\<close> pointer (\<open>None\<close>: \<open>NULL\<close>) and
  \<open>len\<close> the \<open>length\<close> argument; the header's 16-bit length field keeps its low bits.
  The header buffer is sent and overwritten by the header received.
\<close>

definition qm35_hsspi_send ::
  "qm35_spi \<Rightarrow> u8 \<Rightarrow> u8 list option \<Rightarrow> nat \<Rightarrow> bool \<Rightarrow> (errno + unit) \<times> qm35_spi" where
  "qm35_hsspi_send s ul payload len do_prd =
     (let s0 = log_event Trace_hsspi_send s
      in if payload = None \<or> len = 0 then (Inl EINVAL, s0)
         else case qm35_hsspi_wait_ready s0 of
                (Inl e, s1) \<Rightarrow> (Inl e, s1)
              | (Inr _, s1) \<Rightarrow>
                  let hdr = \<lparr>flags = HSSPI_HOST_WR OR (if do_prd then HSSPI_HOST_PRD else 0),
                             ul_value = ul, hdr_length = of_nat len\<rparr>
                  in (case spi_sync (Some hdr) (case payload of Some b \<Rightarrow> b | None \<Rightarrow> []) len s1 of
                        (Inl e, s2) \<Rightarrow> (Inl e, s2)
                      | (Inr (hdr, _), s2) \<Rightarrow>
                          (if flags hdr = 0x00 \<or> flags hdr = 0xff then Inl EBUSY
                           else if flags hdr AND HSSPI_SOC_RDY = 0 then Inl EAGAIN
                           else Inr (),
                           if do_prd \<and> flags hdr AND HSSPI_SOC_ODW \<noteq> 0 \<and> hdr_length hdr \<noteq> 0
                           then s2\<lparr>prd_length := unat (hdr_length hdr), prd_done := True\<rparr>
                           else s2)))"

text \<open>
  \<open>qm35_hsspi_recv\<close>. \<open>header_ok\<close>: the \<open>header\<close> pointer is valid; \<open>data_ok\<close>:
  the \<open>data\<close> buffer is not \<open>NULL\<close> (\<open>NULL\<close> is the check-only mode). The result is
  the return code (the length on success), the header received if any, the bytes
  received into the buffer, and the new state.

  \<open>hsspi_recv_read\<close> is the function from the test of the buffer size on; \<open>header\<close> is
  what the PRE-READ, if one was done in this call, left in the header buffer.
\<close>

definition hsspi_recv_read ::
  "qm35_spi \<Rightarrow> qm35_hsspi_header option \<Rightarrow> nat
     \<Rightarrow> (errno + nat) \<times> qm35_hsspi_header option \<times> u8 list \<times> qm35_spi" where
  "hsspi_recv_read s header sz =
     (if sz < prd_length s then (Inl EMSGSIZE, header, [], s\<lparr>prd_done := False\<rparr>)
      else
        let len = prd_length s
        in case qm35_hsspi_wait_ready s of
             (Inl e, s1) \<Rightarrow> (Inl e, header, [], s1)
           | (Inr _, s1) \<Rightarrow>
               let params = send_params s1;
                   combined = (should_write s1 \<and> \<not> p_size params > sz);
                   hdr = (if combined
                          then \<lparr>flags = HSSPI_HOST_RD OR HSSPI_HOST_WR,
                                ul_value = of_nat (p_type params),
                                hdr_length = of_nat (p_size params)\<rparr>
                          else \<lparr>flags = HSSPI_HOST_RD, ul_value = 0, hdr_length = 0\<rparr>);
                   tx = (if combined
                         then take (p_size params)
                                (case data_out params of Some b \<Rightarrow> b | None \<Rightarrow> [])
                         else []);
                   xlen = (if combined then max len (p_size params) else len)
               in (case spi_sync (Some hdr) tx xlen s1 of
                     (Inl e, s2) \<Rightarrow> (Inl e, header, [], s2)
                   | (Inr (header, rx), s2) \<Rightarrow>
                       let s3 = (if flags hdr AND HSSPI_HOST_WR \<noteq> 0
                                 then (if flags header AND HSSPI_SOC_RDY = 0
                                       then s2\<lparr>work_send_ret := Inl EAGAIN\<rparr>
                                       else s2\<lparr>work_send_ret := Inr (), should_write := False\<rparr>)
                                 else s2);
                           ret = (if unat (hdr_length header) \<noteq> len then Inl EPROTO
                                  else if flags header AND HSSPI_SOC_OA = 0 then Inl EAGAIN
                                  else Inr len);
                           s4 = (if ret = Inr len \<or> ret = Inl EPROTO
                                    \<or> flags header AND HSSPI_SOC_ODW \<noteq> 0
                                 then s3\<lparr>prd_done := False\<rparr> else s3)
                       in (ret, Some header, take xlen rx, s4)))"

definition qm35_hsspi_recv ::
  "qm35_spi \<Rightarrow> bool \<Rightarrow> bool \<Rightarrow> nat
     \<Rightarrow> (errno + nat) \<times> qm35_hsspi_header option \<times> u8 list \<times> qm35_spi" where
  "qm35_hsspi_recv s header_ok data_ok sz =
     (let check = \<not> data_ok;
          s0 = log_event (Trace_hsspi_recv sz) s
      in case (if \<not> header_ok then (Inl EINVAL, s0)
               else if data_ok \<and> sz = 0 then (Inl EINVAL, s0)
               else if \<not> check then qm35_hsspi_wait_ready s0
               else (Inr (), s0)) of
           (Inl e, s1) \<Rightarrow> (Inl e, None, [], s1)
         | (Inr _, s1) \<Rightarrow>
             if \<not> prd_done s1
             then (case qm35_hsspi_prd s1 check of
                     (Inl e, header, s2) \<Rightarrow> (Inl e, header, [], s2)
                   | (Inr _, header, s2) \<Rightarrow>
                       if check then (Inr 0, header, [], s2)
                       else hsspi_recv_read s2 header sz)
             else hsspi_recv_read s1 None sz)"

text \<open>
  Helpers to speak about the hardware log. \<open>is_usleep\<close>: the event is a sleep.
  \<open>read_reply e\<close>: the header received, when \<open>e\<close> is a successful exchange whose
  sent header has the READ bit. \<open>same_dev s s'\<close>: \<open>s'\<close> differs from \<open>s\<close> at most
  in the hardware position and log.
\<close>

fun is_usleep :: "hw_event \<Rightarrow> bool" where
  "is_usleep (Usleep_range a b) = True"
| "is_usleep _ = False"

fun read_reply :: "hw_event \<Rightarrow> qm35_hsspi_header option" where
  "read_reply (Spi_sync (Some tx) buf n (Inr (rh, rx))) =
     (if flags tx AND HSSPI_HOST_RD \<noteq> 0 then Some rh else None)"
| "read_reply _ = None"

definition same_dev :: "qm35_spi \<Rightarrow> qm35_spi \<Rightarrow> bool" where
  "same_dev s s' \<longleftrightarrow>
     ready_gpio s' = ready_gpio s \<and> wakeup_gpio s' = wakeup_gpio s \<and>
     exton_gpio s' = exton_gpio s \<and> send_params s' = send_params s \<and>
     work_send_ret s' = work_send_ret s \<and> prd_done s' = prd_done s \<and>
     should_read s' = should_read s \<and> should_write s' = should_write s \<and>
     prd_length s' = prd_length s \<and> qm35_hsspi_delay_us s' = qm35_hsspi_delay_us s \<and>
     qm35_debug_flags s' = qm35_debug_flags s \<and> bus s' = bus s"

text \<open>
  A device as probed, without READY, WAKEUP and EXTON lines, nothing pending,
  \<open>qm35_debug_flags\<close> at its default \<open>QMSPI_AUTO_TRACE\<close>, in front of hardware that
  will give the replies \<open>b\<close>. \<open>const_bus\<close>: hardware that always gives the same reply.
\<close>

definition qm35_spi_probed :: "(nat \<Rightarrow> bus_reply) \<Rightarrow> qm35_spi" where
  "qm35_spi_probed b =
     \<lparr>ready_gpio = False, wakeup_gpio = False, exton_gpio = False,
      send_params = \<lparr>data_out = None, data_in = False, p_size = 0, p_type = 0, p_flags = 0,
                      wakeup = False\<rparr>,
      work_send_ret = Inr (), prd_done = False, should_read = False, should_write = False,
      prd_length = 0, qm35_hsspi_delay_us = 0, qm35_debug_flags = 2,
      bus = b, bus_pos = 0, hw_log = []\<rparr>"

definition const_bus :: "u8 \<Rightarrow> nat \<Rightarrow> bool \<Rightarrow> nat \<Rightarrow> bus_reply" where
  "const_bus fl len level =
     (\<lambda>_. \<lparr>spi_result = Inr (\<lparr>flags = fl, ul_value = 2, hdr_length = of_nat len\<rparr>, []),
           gpio_result = Inr level\<rparr>)"

text \<open>A probed device with a pre-read of \<open>announced\<close> bytes pending, in front of
  hardware that echoes the flags \<open>fl\<close> and the length \<open>len\<close> in every exchange.\<close>

definition pending_read :: "nat \<Rightarrow> u8 \<Rightarrow> nat \<Rightarrow> qm35_spi" where
  "pending_read announced fl len =
     (qm35_spi_probed (const_bus fl len False))\<lparr>prd_done := True, prd_length := announced\<rparr>"

section \<open>Send and receive orchestration (qm35\_spi\_transport.c)\<close>

text \<open>
  \<open>qm35_send_work\<close>, the work function of \<open>work_send\<close>; its input is
  \<open>qmspi->send_params\<close>. The message type is cast to the header's \<open>u8\<close>.
\<close>

definition qm35_send_work :: "qm35_spi \<Rightarrow> (errno + unit) \<times> qm35_spi" where
  "qm35_send_work s =
     (case qm35_hsspi_wakeup s (wakeup (send_params s)) of
        (_, s1) \<Rightarrow>
          if qm35_debug_flags s1 AND QMSPI_COMBINED_WRITE \<noteq> 0 \<and> \<not> should_write s1
          then (work_send_ret s1, s1)
          else (case qm35_hsspi_send s1 (of_nat (p_type (send_params s1)))
                       (data_out (send_params s1)) (p_size (send_params s1)) (should_read s1) of
                  (ret, s2) \<Rightarrow>
                    (ret,
                     if ret = Inr () \<and> qm35_debug_flags s2 AND QMSPI_COMBINED_WRITE \<noteq> 0
                     then s2\<lparr>should_write := False\<rparr> else s2)))"

text \<open>
  \<open>qm35_enqueue(qmspi, &qmspi->work_send)\<close>: the work function runs in the worker
  thread (or inline when the caller is the worker); its result is stored in
  \<open>work_send.ret\<close> and returned. The interruption of a waiting caller by a signal
  (\<open>-EINTR\<close>) is not modelled.
\<close>

definition qm35_enqueue_send :: "qm35_spi \<Rightarrow> (errno + unit) \<times> qm35_spi" where
  "qm35_enqueue_send s =
     (case qm35_send_work s of (ret, s1) \<Rightarrow> (ret, s1\<lparr>work_send_ret := ret\<rparr>))"

text \<open>
  The retry loop of \<open>qm35_spi_send\<close>,
  \<open>while ((ret == -EAGAIN || ret == -EBUSY) && retry_count--)\<close>, from the state
  reached after the first \<open>qm35_enqueue\<close>. \<open>retry_count\<close> is a C \<open>int\<close>, here a 32-bit word read by \<open>sint\<close>: the
  post-decrement takes place whenever the left operand holds, also when the count is
  already 0, which leaves \<open>-1\<close>. Returns the last \<open>ret\<close>, the final \<open>retry_count\<close>
  and the state.
\<close>

function qm35_spi_send_retry ::
  "(errno + unit) \<Rightarrow> 32 word \<Rightarrow> nat \<Rightarrow> qm35_spi \<Rightarrow> (errno + unit) \<times> 32 word \<times> qm35_spi" where
  "qm35_spi_send_retry ret retry_count retry_udelay s =
     (if ret = Inl EAGAIN \<or> ret = Inl EBUSY then
        (if retry_count \<noteq> 0 then
           (let s1 = usleep_range retry_udelay (2 * retry_udelay) s;
                s2 = s1\<lparr>send_params := (send_params s1)
                          \<lparr>wakeup := (ret = Inl EBUSY \<and> \<not> exton_gpio s1)\<rparr>\<rparr>;
                r = qm35_enqueue_send s2
            in qm35_spi_send_retry (fst r) (retry_count - 1) (retry_udelay * 2) (snd r))
         else (ret, retry_count - 1, s))
      else (ret, retry_count, s))"
  by pat_completeness auto
termination
  by (relation "measure (\<lambda>(ret, retry_count, retry_udelay, s). unat retry_count)")
     (auto simp: unat_minus_one unat_gt_0)

text \<open>
  \<open>qm35_spi_send\<close>. \<open>resume_rc\<close> is what \<open>qm35_spi_pm_resume\<close> returned. On the
  \<open>error\<close> path after a failed resume the idle request is skipped.
\<close>

definition qm35_spi_send ::
  "qm35_spi \<Rightarrow> nat \<Rightarrow> u8 list option \<Rightarrow> nat \<Rightarrow> (errno + unit) \<Rightarrow> (errno + unit) \<times> qm35_spi" where
  "qm35_spi_send s type payload sz resume_rc =
     (let s1 = s\<lparr>send_params := \<lparr>data_out = payload, data_in = False, p_size = sz,
                                  p_type = type, p_flags = 0, wakeup = False\<rparr>\<rparr>;
          s2 = (if qm35_debug_flags s1 AND QMSPI_COMBINED_WRITE \<noteq> 0
                then s1\<lparr>should_write := True\<rparr> else s1)
      in case resume_rc of
           Inl e \<Rightarrow> (Inl e, s2)
         | Inr _ \<Rightarrow>
             (case qm35_enqueue_send s2 of
                (ret, s3) \<Rightarrow>
                  (case qm35_spi_send_retry ret (of_nat QM35_HSSPI_RETRY_COUNT)
                          QM35_HSSPI_RETRY_DELAY_US s3 of
                     (ret, retry_count, s4) \<Rightarrow>
                       (ret,
                        log_event Pm_idle
                          (if retry_count = 0 \<and> qm35_debug_flags s4 AND QMSPI_COMBINED_WRITE \<noteq> 0
                           then s4\<lparr>should_write := False\<rparr> else s4)))))"

declare qm35_spi_send_retry.simps [simp del]

text \<open>\<open>same_cfg s s'\<close>: \<open>s'\<close> has the configuration, the send parameters and the
  hardware replies of \<open>s\<close>; the pending-read state, \<open>work_send.ret\<close>, the hardware
  position and the log may differ.\<close>

definition same_cfg :: "qm35_spi \<Rightarrow> qm35_spi \<Rightarrow> bool" where
  "same_cfg s s' \<longleftrightarrow>
     ready_gpio s' = ready_gpio s \<and> wakeup_gpio s' = wakeup_gpio s \<and>
     exton_gpio s' = exton_gpio s \<and> send_params s' = send_params s \<and>
     should_read s' = should_read s \<and> should_write s' = should_write s \<and>
     qm35_hsspi_delay_us s' = qm35_hsspi_delay_us s \<and>
     qm35_debug_flags s' = qm35_debug_flags s \<and> bus s' = bus s"

text \<open>
  \<open>qm35_recv_work\<close>, the work function of \<open>work_recv\<close>; its output is the
  \<open>params\<close> structure of \<open>qm35_spi_recv\<close>: \<open>data_ok\<close> and \<open>sz\<close> are its buffer and
  size, and the type and flags are stored in it on success. The result is the return
  code (the length in the header received), the type and flags stored if any, the
  bytes received and the state. A non-negative return of \<open>qm35_hsspi_recv\<close> always
  comes with a received header; the \<open>None\<close> case stands for the uninitialised local.
\<close>

definition qm35_recv_work ::
  "qm35_spi \<Rightarrow> bool \<Rightarrow> nat \<Rightarrow> (errno + nat) \<times> (nat \<times> int) option \<times> u8 list \<times> qm35_spi" where
  "qm35_recv_work s data_ok sz =
     (case qm35_hsspi_wakeup s False of
        (_, s1) \<Rightarrow>
          (case qm35_hsspi_recv (s1\<lparr>should_read := False\<rparr>) True data_ok sz of
             (Inl e, header, rx, s2) \<Rightarrow> (Inl e, None, rx, s2)
           | (Inr n, header, rx, s2) \<Rightarrow>
               (case header of
                  Some h \<Rightarrow>
                    (Inr (unat (hdr_length h)), Some (unat (ul_value h), uint (flags h)), rx, s2)
                | None \<Rightarrow> (Inr 0, Some (0, 0), rx, s2))))"

text \<open>
  The retry loop of \<open>qm35_spi_recv\<close>, \<open>while (ret == -EAGAIN && retry_count--)\<close>, from
  the result \<open>res\<close> of the first \<open>qm35_enqueue\<close> of \<open>work_recv\<close> (which runs
  \<open>qm35_recv_work\<close>); the final \<open>retry_count\<close> is not used afterwards.
\<close>

function qm35_spi_recv_retry ::
  "(errno + nat) \<times> (nat \<times> int) option \<times> u8 list \<Rightarrow> 32 word \<Rightarrow> nat \<Rightarrow> bool \<Rightarrow> nat \<Rightarrow> qm35_spi
     \<Rightarrow> ((errno + nat) \<times> (nat \<times> int) option \<times> u8 list) \<times> qm35_spi" where
  "qm35_spi_recv_retry res retry_count retry_udelay data_ok sz s =
     (if fst res = Inl EAGAIN \<and> retry_count \<noteq> 0 then
        (let s1 = usleep_range retry_udelay (2 * retry_udelay) s;
             r = qm35_recv_work s1 data_ok sz
         in qm35_spi_recv_retry
              (fst r, fst (snd r), fst (snd (snd r)))
              (retry_count - 1) (retry_udelay * 2) data_ok sz (snd (snd (snd r))))
      else (res, s))"
  by pat_completeness auto
termination
  by (relation "measure (\<lambda>(res, retry_count, retry_udelay, data_ok, sz, s). unat retry_count)")
     (auto simp: unat_minus_one unat_gt_0)

declare qm35_spi_recv_retry.simps [simp del]

text \<open>
  \<open>qm35_spi_recv\<close>. \<open>resume_rc\<close> is what \<open>qm35_spi_pm_resume\<close> returned. The type and
  flags are given to the caller when \<open>ret >= 0\<close>; otherwise \<open>prd_done\<close> is reset.
\<close>

definition qm35_spi_recv ::
  "qm35_spi \<Rightarrow> bool \<Rightarrow> nat \<Rightarrow> (errno + unit)
     \<Rightarrow> (errno + nat) \<times> (nat \<times> int) option \<times> u8 list \<times> qm35_spi" where
  "qm35_spi_recv s data_ok sz resume_rc =
     (case resume_rc of
        Inl e \<Rightarrow> (Inl e, None, [], s)
      | Inr _ \<Rightarrow>
          (case qm35_recv_work s data_ok sz of
             (ret, out, rx, s1) \<Rightarrow>
               (case qm35_spi_recv_retry (ret, out, rx) (of_nat QM35_HSSPI_RETRY_COUNT)
                       QM35_HSSPI_RETRY_DELAY_US data_ok sz s1 of
                  ((ret, out, rx), s2) \<Rightarrow>
                    (case ret of
                       Inr n \<Rightarrow> (Inr n, out, rx, log_event Pm_idle s2)
                     | Inl e \<Rightarrow>
                         (Inl e, None, rx, log_event Pm_idle (s2\<lparr>prd_done := False\<rparr>))))))"

text \<open>
  \<open>prd_reply e\<close>: the header received, when \<open>e\<close> is a successful pre-read: an exchange
  with the PRE-READ bit sent whose reply has the data-waiting flag and a length that is
  not zero. \<open>pre_read_in s s'\<close>: the log of \<open>s'\<close> has, after the events of \<open>s\<close>, a
  successful pre-read that announced the length pending in \<open>s'\<close>.
\<close>

fun prd_reply :: "hw_event \<Rightarrow> qm35_hsspi_header option" where
  "prd_reply (Spi_sync (Some tx) buf n (Inr (rh, rx))) =
     (if flags tx AND HSSPI_HOST_PRD \<noteq> 0 \<and> flags rh AND HSSPI_SOC_ODW \<noteq> 0 \<and> hdr_length rh \<noteq> 0
      then Some rh else None)"
| "prd_reply _ = None"

definition pre_read_in :: "qm35_spi \<Rightarrow> qm35_spi \<Rightarrow> bool" where
  "pre_read_in s s' \<longleftrightarrow>
     list_ex (\<lambda>e. case prd_reply e of
                    Some rh \<Rightarrow> prd_length s' = unat (hdr_length rh)
                  | None \<Rightarrow> False)
       (drop (length (hw_log s)) (hw_log s'))"

text \<open>Hardware whose \<open>k\<close>-th reply echoes the flags and length of the \<open>k\<close>-th entry
  of a list, and an all-zero header once the list is used up.\<close>

definition seq_bus :: "(u8 \<times> nat) list \<Rightarrow> nat \<Rightarrow> bus_reply" where
  "seq_bus rs k =
     (if k < length rs then const_bus (fst (rs ! k)) (snd (rs ! k)) False k
      else const_bus 0 0 False k)"

section \<open>Properties of the dispatch table\<close>

lemmas msg_defs =
  QM35_TRANSPORT_MSG_MAX_def QM35_TRANSPORT_MSG_UCI_def QM35_TRANSPORT_PRIO_COUNT_def
  QM35_TRANSPORT_PRIO_HIGH_def QM35_TRANSPORT_PRIO_NORMAL_def

text \<open>
  Claim C1. An inbound frame (the transport's \<open>recv\<close> returned a payload of some type)
  is handed to exactly one handler: the High-priority handler registered for its type
  when there is one, otherwise the Normal-priority one. When neither is registered
  (or the type has no slot at all) the event returns \<open>-EOPNOTSUPP\<close> (Unsupported), the
  frame is freed and no handler is called.
\<close>

theorem dispatch_exactly_one_handler:
  "(let skb = \<lparr>skb_data = payload, skb_cb0 = of_nat type, skb_cb1 = of_int fl,
                skb_cb2 = of_nat ev\<rparr>;
        high = rx_handlers q (type * QM35_TRANSPORT_PRIO_COUNT + QM35_TRANSPORT_PRIO_HIGH);
        normal = rx_handlers q (type * QM35_TRANSPORT_PRIO_COUNT + QM35_TRANSPORT_PRIO_NORMAL);
        res = qm35_transport_event q ev True (Inr (payload, type, fl))
    in (type < QM35_TRANSPORT_MSG_MAX \<and> cb high = Some h \<longrightarrow>
          res = (Inr (), [Call_handler h (data high) skb]))
     \<and> (type < QM35_TRANSPORT_MSG_MAX \<and> cb high = None \<and> cb normal = Some h \<longrightarrow>
          res = (Inr (), [Call_handler h (data normal) skb]))
     \<and> (type \<ge> QM35_TRANSPORT_MSG_MAX \<or> (cb high = None \<and> cb normal = None) \<longrightarrow>
          res = (Inl EOPNOTSUPP, [Kfree_skb skb])))"
  by (auto simp: qm35_transport_event_def qm35_transport_get_registered_def Let_def msg_defs)

text \<open>The scenario of the specification: High and Normal both registered for the
  application (UCI) type, then Normal only, then none.\<close>

theorem dispatch_exactly_one_handler_witness:
  "(let skb = \<lparr>skb_data = [1, 2, 3], skb_cb0 = 2, skb_cb1 = 0, skb_cb2 = 0\<rparr>;
        hi = \<lparr>cb = Some (Client_cb 1), data = 10\<rparr>;
        lo = \<lparr>cb = Some (Client_cb 2), data = 20\<rparr>;
        tbl = rx_handlers qm35_zeroed
    in qm35_transport_event (qm35_zeroed\<lparr>rx_handlers := tbl(4 := hi, 5 := lo)\<rparr>)
          0 True (Inr ([1, 2, 3], 2, 0))
        = (Inr (), [Call_handler (Client_cb 1) 10 skb])
     \<and> qm35_transport_event (qm35_zeroed\<lparr>rx_handlers := tbl(5 := lo)\<rparr>)
          0 True (Inr ([1, 2, 3], 2, 0))
        = (Inr (), [Call_handler (Client_cb 2) 20 skb])
     \<and> qm35_transport_event qm35_zeroed 0 True (Inr ([1, 2, 3], 2, 0))
        = (Inl EOPNOTSUPP, [Kfree_skb skb]))"
  using
    dispatch_exactly_one_handler
      [where type = 2 and h = "Client_cb 1" and payload = "[1, 2, 3]" and fl = 0 and ev = 0
         and q = "qm35_zeroed\<lparr>rx_handlers := (rx_handlers qm35_zeroed)
                    (4 := \<lparr>cb = Some (Client_cb 1), data = 10\<rparr>,
                     5 := \<lparr>cb = Some (Client_cb 2), data = 20\<rparr>)\<rparr>"]
    dispatch_exactly_one_handler
      [where type = 2 and h = "Client_cb 2" and payload = "[1, 2, 3]" and fl = 0 and ev = 0
         and q = "qm35_zeroed\<lparr>rx_handlers := (rx_handlers qm35_zeroed)
                    (5 := \<lparr>cb = Some (Client_cb 2), data = 20\<rparr>)\<rparr>"]
    dispatch_exactly_one_handler
      [where type = 2 and payload = "[1, 2, 3]" and fl = 0 and ev = 0 and q = qm35_zeroed]
  by (simp add: msg_defs qm35_zeroed_def Let_def)

text \<open>
  Claim C5. For every message type and priority: registering a handler while the slot
  is occupied fails with \<open>-EEXIST\<close> (AlreadyExists) and leaves the table as it was;
  unregistering with a callback that is not the one stored in the slot fails with
  \<open>-EBADF\<close> (the code's "not found") and leaves the table as it was; and after a
  successful unregister a handler can be registered for the same pair again.
\<close>

theorem register_unregister_slot:
  assumes "type < QM35_TRANSPORT_MSG_MAX" and "prio < QM35_TRANSPORT_PRIO_COUNT"
  shows "(let idx = type * QM35_TRANSPORT_PRIO_COUNT + prio;
              unreg = qm35_transport_unregister q type prio (Some f);
              rereg = qm35_transport_register (snd unreg) type prio (Some g) d
          in (cb (rx_handlers q idx) \<noteq> None \<longrightarrow>
                qm35_transport_register q type prio (Some g) d = (Inl EEXIST, q))
           \<and> (cb (rx_handlers q idx) \<noteq> Some f \<longrightarrow> unreg = (Inl EBADF, q))
           \<and> (fst unreg = Inr () \<longrightarrow>
                fst rereg = Inr () \<and>
                rx_handlers (snd rereg) idx = \<lparr>cb = Some g, data = d\<rparr>))"
  using assms
  by (auto simp: qm35_transport_register_def qm35_transport_unregister_def Let_def)

theorem register_unregister_slot_witness:
  "(let q = qm35_zeroed\<lparr>rx_handlers := (rx_handlers qm35_zeroed)
                         (4 := \<lparr>cb = Some (Client_cb 1), data = 10\<rparr>)\<rparr>;
        unreg = qm35_transport_unregister q 2 0 (Some (Client_cb 1));
        rereg = qm35_transport_register (snd unreg) 2 0 (Some (Client_cb 2)) 20
    in qm35_transport_register q 2 0 (Some (Client_cb 2)) 20 = (Inl EEXIST, q)
     \<and> qm35_transport_unregister q 2 0 (Some (Client_cb 2)) = (Inl EBADF, q)
     \<and> fst unreg = Inr () \<and> fst rereg = Inr ()
     \<and> rx_handlers (snd rereg) 4 = \<lparr>cb = Some (Client_cb 2), data = 20\<rparr>)"
  using
    register_unregister_slot
      [where type = 2 and prio = 0 and f = "Client_cb 2" and g = "Client_cb 2" and d = 20
         and q = "qm35_zeroed\<lparr>rx_handlers := (rx_handlers qm35_zeroed)
                    (4 := \<lparr>cb = Some (Client_cb 1), data = 10\<rparr>)\<rparr>"]
    register_unregister_slot
      [where type = 2 and prio = 0 and f = "Client_cb 1" and g = "Client_cb 2" and d = 20
         and q = "qm35_zeroed\<lparr>rx_handlers := (rx_handlers qm35_zeroed)
                    (4 := \<lparr>cb = Some (Client_cb 1), data = 10\<rparr>)\<rparr>"]
  by (simp add: msg_defs qm35_zeroed_def Let_def qm35_transport_unregister_def)

section \<open>Properties of the bypass channel\<close>

lemmas bypass_defs =
  qm35_bypass_open_def qm35_bypass_close_def qm35_bypass_control_def qm35_bypass_send_def
  qm35_bypass_recv_def qm35_bypass_check_def IS_ERR_OR_NULL_def

lemma bypass_opened_by_simps:
  "opened (bypass_data (bypass_opened_by t))"
  "owner (bypass_data (bypass_opened_by t)) = t"
  "packets (chan (bypass_data (bypass_opened_by t))) = []"
  "expected_type (chan (bypass_data (bypass_opened_by t))) = 2"
  by (simp_all add: bypass_opened_by_def qm35_bypass_open_def qm35_zeroed_def upd_chan_def
      qm35_bypass_set_expected_def qm35_transport_register_def msg_defs Let_def)

text \<open>
  Claim C7. Opening the bypass channel while it is open fails with \<open>-EBUSY\<close>
  (AlreadyOpen) and changes nothing; closing it while it is not open returns \<open>-EBADF\<close>
  (the "not opened" error); and while it is open, close, control, send and recv called
  by another process group than the owner fail with \<open>-EPERM\<close> (PermissionDenied) and
  change nothing. The calls are well-formed: a valid handle, a listener for open, a
  non-empty buffer for send, non-null \<open>type\<close> and \<open>flags\<close> pointers for recv (the
  argument checks come before the ownership check and return \<open>-EINVAL\<close>).
\<close>

theorem bypass_open_close_owner:
  "(opened (bypass_data q) \<longrightarrow>
      qm35_bypass_open q (Some l) priv tgid module_get_ok start_rc = (Hnd_err EBUSY, q, []))
   \<and> (\<not> opened (bypass_data q) \<longrightarrow>
      qm35_bypass_close q Hnd_chan tgid = (Inl EBADF, q, []))
   \<and> (opened (bypass_data q) \<and> owner (bypass_data q) \<noteq> tgid \<longrightarrow>
        qm35_bypass_close q Hnd_chan tgid = (Inl EPERM, q, [])
      \<and> qm35_bypass_control q Hnd_chan action param tgid op_rc = (Inl EPERM, q, [])
      \<and> (len \<noteq> 0 \<longrightarrow>
           qm35_bypass_send q Hnd_chan (Some buf) len tgid send_rc = (Inl EPERM, q, []))
      \<and> qm35_bypass_recv q Hnd_chan sz True True tgid copy_ok = (Inl EPERM, q, []))"
  by (simp add: bypass_defs)

text \<open>Process group 100 has opened the channel; 100 opens again, 200 tries the other
  operations; a close on a device whose channel was never opened.\<close>

theorem bypass_open_close_owner_witness:
  "(let q = bypass_opened_by 100
    in qm35_bypass_open q (Some 8) 0 100 True (Inr ()) = (Hnd_err EBUSY, q, [])
     \<and> qm35_bypass_close q Hnd_chan 200 = (Inl EPERM, q, [])
     \<and> qm35_bypass_control q Hnd_chan QM35_BYPASS_ACTION_RESET (Some 0) 200 (Inr 0)
         = (Inl EPERM, q, [])
     \<and> qm35_bypass_send q Hnd_chan (Some [1, 2]) 2 200 (Inr ()) = (Inl EPERM, q, [])
     \<and> qm35_bypass_recv q Hnd_chan 16 True True 200 True = (Inl EPERM, q, []))
   \<and> qm35_bypass_close qm35_zeroed Hnd_chan 100 = (Inl EBADF, qm35_zeroed, [])"
  using
    bypass_open_close_owner
      [where q = "bypass_opened_by 100" and tgid = 100 and l = 8 and priv = 0
         and module_get_ok = True and start_rc = "Inr ()"]
    bypass_open_close_owner
      [where q = "bypass_opened_by 100" and tgid = 200 and action = QM35_BYPASS_ACTION_RESET
         and param = "Some 0" and op_rc = "Inr 0" and len = 2 and buf = "[1, 2]"
         and send_rc = "Inr ()" and sz = 16 and copy_ok = True]
    bypass_open_close_owner [where q = qm35_zeroed and tgid = 100]
  by (simp add: bypass_opened_by_simps Let_def) (simp add: qm35_zeroed_def)

text \<open>
  With copies to user space that succeed, a buffer shorter than the packet at the head
  of the queue reads it piece by piece. The owner calls bypass recv with a buffer of
  \<open>len\<close> bytes: \<open>len\<close> bytes, the first of the packet, are copied and \<open>len\<close> is
  returned; the packet stays at the head of the queue, holding the bytes not yet copied,
  and is not freed. The next call, with a buffer of \<open>len_next\<close> bytes, copies the bytes
  that follow, in order; the packet leaves the queue and is freed exactly when that call
  consumes its last byte.
\<close>

lemma bypass_recv_partial:
  assumes "opened (bypass_data q)" and "owner (bypass_data q) = tgid"
    and "packets (chan (bypass_data q)) = skb # rest"
    and "len < length (skb_data skb)"
  shows
    "(let bytes = skb_data skb;
          stores = [Store_type (skb_cb0 skb), Store_flags (skb_cb1 skb)];
          q1 = upd_chan (\<lambda>c. c\<lparr>packets := skb\<lparr>skb_data := drop len bytes\<rparr> # rest\<rparr>) q;
          q2 = upd_chan (\<lambda>c. c\<lparr>packets :=
                  (if len + len_next < length bytes
                   then skb\<lparr>skb_data := drop (len + len_next) bytes\<rparr> # rest else rest)\<rparr>) q
      in qm35_bypass_recv q Hnd_chan len True True tgid True
           = (Inr len, q1, stores @ [Copy_to_user (take len bytes)])
       \<and> qm35_bypass_recv q1 Hnd_chan len_next True True tgid True
           = (Inr (min len_next (length bytes - len)), q2,
              stores @ [Copy_to_user (take len_next (drop len bytes))]
                @ (if len + len_next < length bytes then [] else [Free_skb (skb\<lparr>skb_data := []\<rparr>)])))"
  using assms
  by (auto simp: qm35_bypass_recv_def qm35_bypass_check_def IS_ERR_OR_NULL_def Let_def
      upd_chan_def min_def add.commute)

text \<open>A five-byte packet read with a two-byte and then a three-byte buffer.\<close>

lemma bypass_recv_partial_example:
  "(let skb = \<lparr>skb_data = [1, 2, 3, 4, 5], skb_cb0 = 2, skb_cb1 = 0, skb_cb2 = 0\<rparr>;
        q = fst (qm35_bypass_event_cb (bypass_opened_by 100) skb);
        r1 = qm35_bypass_recv q Hnd_chan 2 True True 100 True;
        r2 = qm35_bypass_recv (fst (snd r1)) Hnd_chan 3 True True 100 True
    in fst r1 = Inr 2
     \<and> snd (snd r1) = [Store_type 2, Store_flags 0, Copy_to_user [1, 2]]
     \<and> packets (chan (bypass_data (fst (snd r1)))) = [skb\<lparr>skb_data := [3, 4, 5]\<rparr>]
     \<and> fst r2 = Inr 3
     \<and> snd (snd r2) = [Store_type 2, Store_flags 0, Copy_to_user [3, 4, 5],
                        Free_skb (skb\<lparr>skb_data := []\<rparr>)]
     \<and> packets (chan (bypass_data (fst (snd r2)))) = [])"
  using
    bypass_recv_partial
      [where q = "fst (qm35_bypass_event_cb (bypass_opened_by 100)
                    \<lparr>skb_data = [1, 2, 3, 4, 5], skb_cb0 = 2, skb_cb1 = 0, skb_cb2 = 0\<rparr>)"
         and tgid = 100 and len = 2 and len_next = 3 and rest = "[]"
         and skb = "\<lparr>skb_data = [1, 2, 3, 4, 5], skb_cb0 = 2, skb_cb1 = 0, skb_cb2 = 0\<rparr>"]
  by (simp add: qm35_bypass_event_cb_def bypass_opened_by_simps upd_chan_def Let_def)

text \<open>
  When \<open>copy_to_user\<close> fails in a call whose buffer is shorter than the head packet,
  the call returns \<open>-EFAULT\<close> and the queue is as it was: the packet can be read again.
\<close>

lemma bypass_recv_fault_partial:
  assumes "opened (bypass_data q)" and "owner (bypass_data q) = tgid"
    and "packets (chan (bypass_data q)) = skb # rest"
    and "len < length (skb_data skb)"
  shows "qm35_bypass_recv q Hnd_chan len True True tgid False
           = (Inl EFAULT, q, [Store_type (skb_cb0 skb), Store_flags (skb_cb1 skb)])"
  using assms
  by (simp add: qm35_bypass_recv_def qm35_bypass_check_def IS_ERR_OR_NULL_def Let_def)

text \<open>
  Claim C10 says that the packet is removed from the queue and freed only when its last
  byte has been consumed. The code unlinks the packet (\<open>list_del\<close>) under the lock,
  before the copy, as soon as the buffer takes all that is left of it. So when the owner
  calls bypass recv with such a buffer and \<open>copy_to_user\<close> fails, the call returns
  \<open>-EFAULT\<close>, no byte has been copied, and the packet is out of the queue with its
  bytes unread; it is not freed either.
\<close>

theorem bypass_recv_copy_fault:
  assumes "opened (bypass_data q)" and "owner (bypass_data q) = tgid"
    and "packets (chan (bypass_data q)) = skb # rest"
    and "length (skb_data skb) \<le> len"
  shows "qm35_bypass_recv q Hnd_chan len True True tgid False
           = (Inl EFAULT, upd_chan (\<lambda>c. c\<lparr>packets := rest\<rparr>) q,
              [Store_type (skb_cb0 skb), Store_flags (skb_cb1 skb)])"
  using assms
  by (simp add: qm35_bypass_recv_def qm35_bypass_check_def IS_ERR_OR_NULL_def Let_def)

text \<open>
  A five-byte packet: a two-byte buffer reads \<open>[1, 2]\<close>; the copy into the three-byte
  buffer of the next call fails, and the bytes \<open>[3, 4, 5]\<close> are gone: the queue is
  empty, nothing was freed, and a further call finds nothing to read.
\<close>

theorem bypass_recv_copy_fault_witness:
  "(let skb = \<lparr>skb_data = [1, 2, 3, 4, 5], skb_cb0 = 2, skb_cb1 = 0, skb_cb2 = 0\<rparr>;
        q = fst (qm35_bypass_event_cb (bypass_opened_by 100) skb);
        r1 = qm35_bypass_recv q Hnd_chan 2 True True 100 True;
        r2 = qm35_bypass_recv (fst (snd r1)) Hnd_chan 3 True True 100 False;
        r3 = qm35_bypass_recv (fst (snd r2)) Hnd_chan 3 True True 100 True
    in fst r1 = Inr 2
     \<and> snd (snd r1) = [Store_type 2, Store_flags 0, Copy_to_user [1, 2]]
     \<and> packets (chan (bypass_data (fst (snd r1)))) = [skb\<lparr>skb_data := [3, 4, 5]\<rparr>]
     \<and> fst r2 = Inl EFAULT
     \<and> snd (snd r2) = [Store_type 2, Store_flags 0]
     \<and> packets (chan (bypass_data (fst (snd r2)))) = []
     \<and> fst r3 = Inl EAGAIN
     \<and> snd (snd r3) = [])"
proof -
  define skb :: sk_buff
    where "skb = \<lparr>skb_data = [1, 2, 3, 4, 5], skb_cb0 = 2, skb_cb1 = 0, skb_cb2 = 0\<rparr>"
  define q where "q = fst (qm35_bypass_event_cb (bypass_opened_by 100) skb)"
  define q1 where "q1 = upd_chan (\<lambda>c. c\<lparr>packets := [skb\<lparr>skb_data := [3, 4, 5]\<rparr>]\<rparr>) q"
  define q2 where "q2 = upd_chan (\<lambda>c. c\<lparr>packets := []\<rparr>) q1"
  have q: "opened (bypass_data q)" "owner (bypass_data q) = 100"
    "packets (chan (bypass_data q)) = [skb]"
    by (simp_all add: q_def skb_def qm35_bypass_event_cb_def bypass_opened_by_simps
        upd_chan_def Let_def)
  have r1: "qm35_bypass_recv q Hnd_chan 2 True True 100 True
      = (Inr 2, q1, [Store_type 2, Store_flags 0, Copy_to_user [1, 2]])"
    using q
    by (simp add: qm35_bypass_recv_def qm35_bypass_check_def IS_ERR_OR_NULL_def Let_def
        q1_def skb_def)
  have q1: "opened (bypass_data q1)" "owner (bypass_data q1) = 100"
    "packets (chan (bypass_data q1)) = [skb\<lparr>skb_data := [3, 4, 5]\<rparr>]"
    using q(1,2) by (simp_all add: q1_def upd_chan_def)
  from bypass_recv_copy_fault [OF q1, of 3]
  have r2: "qm35_bypass_recv q1 Hnd_chan 3 True True 100 False
      = (Inl EFAULT, q2, [Store_type 2, Store_flags 0])"
    by (simp add: q2_def skb_def)
  have q2: "opened (bypass_data q2)" "owner (bypass_data q2) = 100"
    "packets (chan (bypass_data q2)) = []"
    using q1(1,2) by (simp_all add: q2_def upd_chan_def)
  have r3: "qm35_bypass_recv q2 Hnd_chan 3 True True 100 True = (Inl EAGAIN, q2, [])"
    using q2 by (simp add: qm35_bypass_recv_def qm35_bypass_check_def IS_ERR_OR_NULL_def)
  show ?thesis
    unfolding Let_def skb_def [symmetric] q_def [symmetric]
    by (simp add: r1 q1 r2 r3 q2)
qed

section \<open>Properties of the framing engine\<close>

subsection \<open>The ready-wait only sleeps; outcomes of the pre-read and of the read phase\<close>

lemmas hw_defs = log_event_def usleep_range_def gpiod_set_value_def gpiod_get_value_def
  spi_sync_def qm35_hsspi_delay_def

lemmas hsspi_flag_defs = HSSPI_HOST_RD_def HSSPI_HOST_PRD_def HSSPI_HOST_WR_def
  HSSPI_SOC_RDY_def HSSPI_SOC_OA_def HSSPI_SOC_ODW_def

lemma wait_ready_loop_frame:
  "wait_ready_loop n s = (r, s') \<Longrightarrow>
     same_dev s s' \<and> (\<exists>evs. hw_log s' = hw_log s @ evs \<and> list_all is_usleep evs)"
proof (induction n arbitrary: s)
  case 0
  then show ?case by (auto simp: same_dev_def)
next
  case (Suc n)
  show ?case
  proof (cases "gpio_result (bus s (bus_pos s))")
    case (Inl e)
    with Suc.prems show ?thesis by (auto simp: hw_defs same_dev_def)
  next
    case (Inr ready)
    show ?thesis
    proof (cases ready)
      case True
      with Inr Suc.prems show ?thesis by (auto simp: hw_defs same_dev_def)
    next
      case False
      with Inr Suc.prems
      have "wait_ready_loop n (usleep_range 10 11 (s\<lparr>bus_pos := bus_pos s + 1\<rparr>)) = (r, s')"
        by (simp add: gpiod_get_value_def)
      from Suc.IH [OF this] show ?thesis
        by (auto simp: hw_defs same_dev_def)
    qed
  qed
qed

lemma wait_ready_frame:
  assumes "qm35_hsspi_wait_ready s = (r, s')"
  shows "same_dev s s' \<and> (\<exists>evs. hw_log s' = hw_log s @ evs \<and> list_all is_usleep evs)"
proof (cases "ready_gpio s")
  case False
  with assms show ?thesis
    by (auto simp: qm35_hsspi_wait_ready_def hw_defs same_dev_def split: if_splits)
next
  case True
  obtain r1 s1 where l: "wait_ready_loop (1000 div 10) s = (r1, s1)"
    by (cases "wait_ready_loop (1000 div 10) s")
  from assms True l have s': "s' = qm35_hsspi_delay s1"
    by (auto simp: qm35_hsspi_wait_ready_def)
  from wait_ready_loop_frame [OF l] s' show ?thesis
    by (cases "qm35_hsspi_delay_us s1 = 0") (auto simp: hw_defs same_dev_def)
qed

lemma wait_ready_loop_error:
  "wait_ready_loop n s = (Inl e, s') \<Longrightarrow> e = EAGAIN \<or> (\<exists>k. gpio_result (bus s k) = Inl e)"
proof (induction n arbitrary: s)
  case 0
  then show ?case by simp
next
  case (Suc n)
  show ?case
  proof (cases "gpio_result (bus s (bus_pos s))")
    case (Inl e')
    with Suc.prems have "e' = e" by (simp add: gpiod_get_value_def)
    with Inl show ?thesis by blast
  next
    case (Inr ready)
    show ?thesis
    proof (cases ready)
      case True
      with Inr Suc.prems show ?thesis by (simp add: gpiod_get_value_def)
    next
      case False
      with Inr Suc.prems
      have "wait_ready_loop n (usleep_range 10 11 (s\<lparr>bus_pos := bus_pos s + 1\<rparr>)) = (Inl e, s')"
        by (simp add: gpiod_get_value_def)
      from Suc.IH [OF this] show ?thesis
        by (simp add: usleep_range_def log_event_def)
    qed
  qed
qed

lemma wait_ready_error:
  assumes "qm35_hsspi_wait_ready s = (Inl e, s')"
  shows "e = EAGAIN \<or> (\<exists>k. gpio_result (bus s k) = Inl e)"
proof -
  obtain r1 s1 where l: "wait_ready_loop (1000 div 10) s = (r1, s1)"
    by (rule prod.exhaust)
  with assms have "r1 = Inl e"
    by (auto simp: qm35_hsspi_wait_ready_def split: if_splits)
  with l wait_ready_loop_error show ?thesis by blast
qed

lemma last_usleeps:
  assumes "list_all is_usleep ws"
  shows "last (xs @ e # ws) = e \<or> is_usleep (last (xs @ e # ws))"
proof (cases "ws = []")
  case True
  then show ?thesis by simp
next
  case False
  with assms have "is_usleep (last ws)" by (simp add: list_all_iff)
  with False show ?thesis by simp
qed

lemma read_reply_usleep: "is_usleep e \<Longrightarrow> read_reply e = None"
  by (cases e) simp_all

lemma last_no_read:
  "list_all is_usleep ws \<Longrightarrow> read_reply e = None \<Longrightarrow> read_reply (last (xs @ e # ws)) = None"
  using last_usleeps [of ws xs e] by (auto simp: read_reply_usleep)

lemma spi_sync_log [simp]:
  "hw_log (snd (spi_sync a b n s)) = hw_log s @ [Spi_sync a b n (spi_result (bus s (bus_pos s)))]"
  by (simp add: spi_sync_def log_event_def Let_def)

lemma spi_sync_fst [simp]: "fst (spi_sync a b n s) = spi_result (bus s (bus_pos s))"
  by (simp add: spi_sync_def Let_def)

lemma spi_sync_same_dev [simp]: "same_dev s (snd (spi_sync a b n s))"
  by (simp add: spi_sync_def Let_def same_dev_def log_event_def)

lemma hsspi_prd_cases:
  assumes "qm35_hsspi_prd s check = (r, hdo, s')"
  shows "hw_log s' = hw_log s @
            [Spi_sync (Some \<lparr>flags = (if check then 0 else HSSPI_HOST_PRD), ul_value = 0,
                             hdr_length = 0\<rparr>) [] 0 (spi_result (bus s (bus_pos s)))]
     \<and> bus_pos s' = bus_pos s + 1
     \<and> (case spi_result (bus s (bus_pos s)) of
           Inl e \<Rightarrow> r = Inl e \<and> hdo = None \<and> same_dev s s'
         | Inr (rh, rx) \<Rightarrow> hdo = Some rh \<and>
             (if check then r = Inr () \<and> same_dev s s'
              else if flags rh AND HSSPI_SOC_ODW = 0 \<or> hdr_length rh = 0
              then r = Inl EAGAIN \<and> same_dev s s'
              else r = Inr () \<and> prd_done s' \<and> prd_length s' = unat (hdr_length rh)
                   \<and> same_dev (s\<lparr>prd_done := True, prd_length := unat (hdr_length rh)\<rparr>) s'))"
  using assms [symmetric]
  by (auto simp: qm35_hsspi_prd_def Let_def spi_sync_def log_event_def same_dev_def
      split: sum.splits prod.splits if_splits)

lemma same_dev_fields:
  assumes "same_dev s s'"
  shows "prd_done s' = prd_done s" "prd_length s' = prd_length s"
    "send_params s' = send_params s" "should_write s' = should_write s"
    "bus s' = bus s" "exton_gpio s' = exton_gpio s" "wakeup_gpio s' = wakeup_gpio s"
    "ready_gpio s' = ready_gpio s" "qm35_debug_flags s' = qm35_debug_flags s"
    "should_read s' = should_read s" "qm35_hsspi_delay_us s' = qm35_hsspi_delay_us s"
    "work_send_ret s' = work_send_ret s"
  using assms by (simp_all add: same_dev_def)

lemma hsspi_word_facts:
  "HSSPI_HOST_RD \<noteq> 0"
  "(HSSPI_HOST_RD OR HSSPI_HOST_WR) AND HSSPI_HOST_RD \<noteq> 0"
  "(HSSPI_HOST_RD OR HSSPI_HOST_WR) AND HSSPI_HOST_WR \<noteq> 0"
  "HSSPI_HOST_RD AND HSSPI_HOST_WR = 0"
  "HSSPI_HOST_PRD AND HSSPI_HOST_RD = 0"
  "(0 :: u8) AND HSSPI_HOST_RD = 0"
  by (simp_all add: HSSPI_HOST_RD_def HSSPI_HOST_WR_def HSSPI_HOST_PRD_def)

lemma hsspi_recv_read_cases:
  assumes run: "hsspi_recv_read s hdo sz = (ret, hdo', d, s')"
  obtains
    (too_small) "sz < prd_length s" "ret = Inl EMSGSIZE" "hw_log s' = hw_log s"
      "\<not> prd_done s'" "bus_pos s' = bus_pos s" "hdo' = hdo" "prd_length s' = prd_length s"
  | (not_ready) e ws where "\<not> sz < prd_length s" "list_all is_usleep ws" "ret = Inl e"
      "hw_log s' = hw_log s @ ws" "prd_done s' = prd_done s" "prd_length s' = prd_length s"
      "e = EAGAIN \<or> (\<exists>k. gpio_result (bus s k) = Inl e)"
  | (bus_error) e ws tx buf n where "\<not> sz < prd_length s" "list_all is_usleep ws"
      "ret = Inl e" "hw_log s' = hw_log s @ ws @ [Spi_sync (Some tx) buf n (Inl e)]"
      "prd_done s' = prd_done s" "prd_length s' = prd_length s"
      "\<exists>k. spi_result (bus s k) = Inl e"
  | (exchange) ws tx buf n rh rx where "\<not> sz < prd_length s" "list_all is_usleep ws"
      "hw_log s' = hw_log s @ ws @ [Spi_sync (Some tx) buf n (Inr (rh, rx))]"
      "flags tx AND HSSPI_HOST_RD \<noteq> 0"
      "ret = (if unat (hdr_length rh) \<noteq> prd_length s then Inl EPROTO
              else if flags rh AND HSSPI_SOC_OA = 0 then Inl EAGAIN
              else Inr (prd_length s))"
      "prd_done s' = (prd_done s \<and> unat (hdr_length rh) = prd_length s
                       \<and> flags rh AND HSSPI_SOC_OA = 0 \<and> flags rh AND HSSPI_SOC_ODW = 0)"
      "prd_length s' = prd_length s" "hdo' = Some rh"
proof (cases "sz < prd_length s")
  case True
  with run [symmetric] show thesis by (intro too_small) (simp_all add: hsspi_recv_read_def)
next
  case nsz: False
  obtain r1 s1 where w: "qm35_hsspi_wait_ready s = (r1, s1)"
    by (cases "qm35_hsspi_wait_ready s")
  from wait_ready_frame [OF w] obtain ws where
    sd: "same_dev s s1" and ws: "hw_log s1 = hw_log s @ ws" "list_all is_usleep ws"
    by auto
  note f = same_dev_fields [OF sd]
  define combined where "combined = (should_write s1 \<and> \<not> p_size (send_params s1) > sz)"
  define hdr where "hdr = (if combined
                          then \<lparr>flags = HSSPI_HOST_RD OR HSSPI_HOST_WR,
                                ul_value = of_nat (p_type (send_params s1)),
                                hdr_length = of_nat (p_size (send_params s1))\<rparr>
                          else \<lparr>flags = HSSPI_HOST_RD, ul_value = 0, hdr_length = 0\<rparr>)"
  define tx where "tx = (if combined
                         then take (p_size (send_params s1))
                                (case data_out (send_params s1) of Some b \<Rightarrow> b | None \<Rightarrow> [])
                         else [])"
  define xlen where "xlen = (if combined then max (prd_length s) (p_size (send_params s1))
                             else prd_length s)"
  have rd: "flags hdr AND HSSPI_HOST_RD \<noteq> 0"
    by (simp add: hdr_def hsspi_word_facts)
  show thesis
  proof (cases r1)
    case (Inl e)
    with run [symmetric] nsz w have "ret = Inl e" "s' = s1"
      by (simp_all add: hsspi_recv_read_def Let_def)
    moreover from w Inl have "e = EAGAIN \<or> (\<exists>k. gpio_result (bus s k) = Inl e)"
      by (auto dest: wait_ready_error)
    ultimately show thesis using ws f nsz by (intro not_ready [of ws e]) simp_all
  next
    case (Inr u)
    with run [symmetric] nsz w have eq:
      "(ret, hdo', d, s') =
         (case spi_sync (Some hdr) tx xlen s1 of
            (Inl e, s2) \<Rightarrow> (Inl e, hdo, [], s2)
          | (Inr (header, rx), s2) \<Rightarrow>
              let s3 = (if flags hdr AND HSSPI_HOST_WR \<noteq> 0
                        then (if flags header AND HSSPI_SOC_RDY = 0
                              then s2\<lparr>work_send_ret := Inl EAGAIN\<rparr>
                              else s2\<lparr>work_send_ret := Inr (), should_write := False\<rparr>)
                        else s2);
                  ret = (if unat (hdr_length header) \<noteq> prd_length s then Inl EPROTO
                         else if flags header AND HSSPI_SOC_OA = 0 then Inl EAGAIN
                         else Inr (prd_length s));
                  s4 = (if ret = Inr (prd_length s) \<or> ret = Inl EPROTO
                           \<or> flags header AND HSSPI_SOC_ODW \<noteq> 0
                        then s3\<lparr>prd_done := False\<rparr> else s3)
              in (ret, Some header, take xlen rx, s4))"
      unfolding hsspi_recv_read_def combined_def hdr_def tx_def xlen_def
      by (simp add: Let_def)
    show thesis
    proof (cases "spi_result (bus s1 (bus_pos s1))")
      case (Inl e)
      with eq have "ret = Inl e" "s' = snd (spi_sync (Some hdr) tx xlen s1)"
        by (simp_all add: spi_sync_def Let_def)
      moreover from Inl f have "\<exists>k. spi_result (bus s k) = Inl e" by auto
      ultimately show thesis using ws f nsz Inl
        by (intro bus_error [of ws e hdr tx xlen]) (simp_all add: spi_sync_def Let_def log_event_def)
    next
      case r: (Inr p)
      obtain rh rx where p: "spi_result (bus s1 (bus_pos s1)) = Inr (rh, rx)"
        using r by (cases p) simp
      define s2 where "s2 = snd (spi_sync (Some hdr) tx xlen s1)"
      have s2: "hw_log s2 = hw_log s1 @ [Spi_sync (Some hdr) tx xlen (Inr (rh, rx))]"
        "prd_done s2 = prd_done s1" "prd_length s2 = prd_length s1"
        by (simp_all add: s2_def spi_sync_def Let_def log_event_def p)
      from eq p have ret: "ret = (if unat (hdr_length rh) \<noteq> prd_length s then Inl EPROTO
              else if flags rh AND HSSPI_SOC_OA = 0 then Inl EAGAIN
              else Inr (prd_length s))" and h: "hdo' = Some rh"
        by (simp_all add: spi_sync_def Let_def)
      from eq p have s': "s' = (let s3 = (if flags hdr AND HSSPI_HOST_WR \<noteq> 0
                        then (if flags rh AND HSSPI_SOC_RDY = 0
                              then s2\<lparr>work_send_ret := Inl EAGAIN\<rparr>
                              else s2\<lparr>work_send_ret := Inr (), should_write := False\<rparr>)
                        else s2)
                  in (if ret = Inr (prd_length s) \<or> ret = Inl EPROTO
                           \<or> flags rh AND HSSPI_SOC_ODW \<noteq> 0
                        then s3\<lparr>prd_done := False\<rparr> else s3))"
        unfolding ret s2_def by (simp add: spi_sync_def Let_def)
      have l: "hw_log s' = hw_log s2" and pl: "prd_length s' = prd_length s2"
        and pd: "prd_done s' = (prd_done s2 \<and> \<not> (ret = Inr (prd_length s) \<or> ret = Inl EPROTO
                           \<or> flags rh AND HSSPI_SOC_ODW \<noteq> 0))"
        unfolding s' by (simp_all add: Let_def)
      from pd ret have pd': "prd_done s' = (prd_done s2 \<and> unat (hdr_length rh) = prd_length s
                       \<and> flags rh AND HSSPI_SOC_OA = 0 \<and> flags rh AND HSSPI_SOC_ODW = 0)"
        by (auto split: if_splits)
      show thesis
        using nsz ws(2) rd ret h l pl pd' s2 ws(1) f
        by (intro exchange [of ws hdr tx xlen rh rx]) simp_all
    qed
  qed
qed


lemma hsspi_recv_entry:
  assumes "(if \<not> header_ok then (Inl EINVAL, s0)
            else if data_ok \<and> sz = 0 then (Inl EINVAL, s0)
            else if \<not> \<not> data_ok then qm35_hsspi_wait_ready s0
            else (Inr (), s0)) = (r1, s1)"
  shows "same_dev s0 s1 \<and> (\<exists>ws. hw_log s1 = hw_log s0 @ ws \<and> list_all is_usleep ws)"
proof (cases "header_ok \<and> \<not> (data_ok \<and> sz = 0) \<and> data_ok")
  case True
  with assms have "qm35_hsspi_wait_ready s0 = (r1, s1)" by simp
  from wait_ready_frame [OF this] show ?thesis .
next
  case False
  with assms have "s1 = s0" by (auto split: if_splits)
  then show ?thesis by (simp add: same_dev_def)
qed

lemma read_reply_prd [simp]:
  "read_reply (Spi_sync (Some \<lparr>flags = (if check then 0 else HSSPI_HOST_PRD), ul_value = 0,
                             hdr_length = 0\<rparr>) buf n rep) = None"
  by (cases rep) (auto simp: hsspi_word_facts)

lemma read_reply_error [simp]: "read_reply (Spi_sync txh buf n (Inl e)) = None"
  by (cases txh) simp_all

text \<open>
  Claim C2, as amended. A call of recv whose last hardware action is a successful
  exchange with the READ bit sent has performed the read phase; \<open>rh\<close> is the header
  echoed in it and \<open>prd_length\<close> the length the pre-read announced. If the echoed
  length differs, recv returns \<open>-EPROTO\<close> and the pending-read state is reset. If it
  matches and the out-active flag (OA) is absent, recv returns \<open>-EAGAIN\<close>, and the
  pending-read state is kept exactly when the echoed flags do not carry the
  data-waiting flag (ODW): with ODW set it is reset as well.
\<close>

theorem hsspi_recv_read_phase:
  assumes run: "qm35_hsspi_recv s header_ok data_ok sz = (ret, hdo, d, s')"
    and lg: "hw_log s' = hw_log s @ evs"
    and rd: "read_reply (last evs) = Some rh"
  shows "(unat (hdr_length rh) \<noteq> prd_length s' \<longrightarrow> ret = Inl EPROTO \<and> \<not> prd_done s')
       \<and> (unat (hdr_length rh) = prd_length s' \<and> flags rh AND HSSPI_SOC_OA = 0 \<longrightarrow>
            ret = Inl EAGAIN \<and> (prd_done s' \<longleftrightarrow> flags rh AND HSSPI_SOC_ODW = 0))"
proof -
  define s0 where "s0 = log_event (Trace_hsspi_recv sz) s"
  have l0: "hw_log s0 = hw_log s @ [Trace_hsspi_recv sz]"
    by (simp add: s0_def log_event_def)
  obtain r1 s1 where entry:
    "(if \<not> header_ok then (Inl EINVAL, s0)
      else if data_ok \<and> sz = 0 then (Inl EINVAL, s0)
      else if \<not> \<not> data_ok then qm35_hsspi_wait_ready s0
      else (Inr (), s0)) = (r1, s1)"
    by (rule prod.exhaust)
  from hsspi_recv_entry [OF entry] l0 obtain ws1 where
    l1: "hw_log s1 = hw_log s @ Trace_hsspi_recv sz # ws1" and u1: "list_all is_usleep ws1"
    by auto
  from run [symmetric] entry have eq:
    "(ret, hdo, d, s') =
       (case r1 of
          Inl e \<Rightarrow> (Inl e, None, [], s1)
        | Inr _ \<Rightarrow>
            if \<not> prd_done s1
            then (case qm35_hsspi_prd s1 (\<not> data_ok) of
                    (Inl e, header, s2) \<Rightarrow> (Inl e, header, [], s2)
                  | (Inr _, header, s2) \<Rightarrow>
                      if \<not> data_ok then (Inr 0, header, [], s2)
                      else hsspi_recv_read s2 header sz)
            else hsspi_recv_read s1 None sz)"
    unfolding qm35_hsspi_recv_def Let_def s0_def [symmetric] entry
    by (cases r1) simp_all
  have no_read: False if "hw_log s' = hw_log s @ xs @ e # ws" "list_all is_usleep ws"
    "read_reply e = None" for xs e ws
  proof -
    from that(1) lg have "evs = xs @ e # ws" by simp
    with last_no_read [OF that(2,3), of xs] rd show False by simp
  qed
  have read_phase: ?thesis
    if rr: "hsspi_recv_read s2 h2 sz = (ret, hdo, d, s')"
      and l2: "hw_log s2 = hw_log s @ xs @ [e]" and e: "read_reply e = None"
      and pd: "prd_done s2" for s2 h2 xs e
  using rr
  proof (cases rule: hsspi_recv_read_cases)
    case too_small
    with l2 have "hw_log s' = hw_log s @ xs @ e # []" by simp
    from no_read [OF this _ e] show ?thesis by simp
  next
    case (not_ready e' ws)
    with l2 have "hw_log s' = hw_log s @ xs @ e # ws" by simp
    from no_read [OF this not_ready(2) e] show ?thesis by simp
  next
    case (bus_error e' ws tx buf n)
    with l2 have "hw_log s' = hw_log s @ (xs @ e # ws) @ Spi_sync (Some tx) buf n (Inl e') # []"
      by simp
    from no_read [OF this] show ?thesis by simp
  next
    case (exchange ws tx buf n rh' rx)
    with l2 lg have "evs = xs @ e # ws @ [Spi_sync (Some tx) buf n (Inr (rh', rx))]" by simp
    with rd exchange(4) have "rh' = rh" by simp
    with exchange pd show ?thesis by (simp split: if_splits)
  qed
  show ?thesis
  proof (cases r1)
    case (Inl e)
    with eq have "s' = s1" by simp
    with l1 have "hw_log s' = hw_log s @ [] @ Trace_hsspi_recv sz # ws1" by simp
    from no_read [OF this u1] show ?thesis by simp
  next
    case (Inr u)
    show ?thesis
    proof (cases "prd_done s1")
      case True
      with eq Inr have "hsspi_recv_read s1 None sz = (ret, hdo, d, s')" by simp
      moreover have "read_reply (last (Trace_hsspi_recv sz # ws1)) = None"
        using last_no_read [OF u1, of "Trace_hsspi_recv sz" "[]"] by simp
      moreover from l1 have "hw_log s1 = hw_log s @ butlast (Trace_hsspi_recv sz # ws1)
          @ [last (Trace_hsspi_recv sz # ws1)]"
        by simp
      ultimately show ?thesis using True by (intro read_phase)
    next
      case False
      obtain r2 h2 s2 where prd: "qm35_hsspi_prd s1 (\<not> data_ok) = (r2, h2, s2)"
        by (cases "qm35_hsspi_prd s1 (\<not> data_ok)")
      note pc = hsspi_prd_cases [OF prd]
      define pe where "pe = Spi_sync (Some \<lparr>flags = (if \<not> data_ok then 0 else HSSPI_HOST_PRD),
          ul_value = 0, hdr_length = 0\<rparr>) [] 0 (spi_result (bus s1 (bus_pos s1)))"
      from pc l1 have l2: "hw_log s2 = hw_log s @ (Trace_hsspi_recv sz # ws1) @ [pe]"
        by (simp add: pe_def)
      have pe: "read_reply pe = None" unfolding pe_def by (rule read_reply_prd)
      from l2 have l2': "hw_log s2 = hw_log s @ (Trace_hsspi_recv sz # ws1) @ pe # []" by simp
      show ?thesis
      proof (cases "r2 = Inr () \<and> data_ok")
        case True
        with eq Inr False prd have rr: "hsspi_recv_read s2 h2 sz = (ret, hdo, d, s')" by simp
        from True pc have "prd_done s2" by (auto split: sum.splits prod.splits if_splits)
        from read_phase [OF rr l2 pe this] show ?thesis .
      next
        case F2: False
        with eq Inr False prd have "s' = s2" by (cases r2) (auto split: if_splits)
        with l2' no_read [OF _ _ pe, of "Trace_hsspi_recv sz # ws1" "[]"] show ?thesis by simp
      qed
    qed
  qed
qed



text \<open>A pre-read of 10 bytes is pending. The device echoes length 6: protocol error,
  pending state reset. The device echoes length 10 with only the ready flag:
  retryable error, pending state kept.\<close>

theorem hsspi_recv_read_phase_witness:
  "fst (qm35_hsspi_recv (pending_read 10 0x20 6) True True 16) = Inl EPROTO
   \<and> \<not> prd_done (snd (snd (snd (qm35_hsspi_recv (pending_read 10 0x20 6) True True 16))))
   \<and> fst (qm35_hsspi_recv (pending_read 10 0x20 10) True True 16) = Inl EAGAIN
   \<and> prd_done (snd (snd (snd (qm35_hsspi_recv (pending_read 10 0x20 10) True True 16))))"
proof -
  let ?a = "qm35_hsspi_recv (pending_read 10 0x20 6) True True 16"
  let ?b = "qm35_hsspi_recv (pending_read 10 0x20 10) True True 16"
  let ?rd = "\<lparr>flags = 0x20, ul_value = 0, hdr_length = 0\<rparr>"
  have run_a: "?a = (fst ?a, fst (snd ?a), fst (snd (snd ?a)), snd (snd (snd ?a)))"
    and run_b: "?b = (fst ?b, fst (snd ?b), fst (snd (snd ?b)), snd (snd (snd ?b)))"
    by simp_all
  have log_a: "hw_log (snd (snd (snd ?a))) = hw_log (pending_read 10 0x20 6) @
      [Trace_hsspi_recv 16,
       Spi_sync (Some ?rd) [] 10 (Inr (\<lparr>flags = 0x20, ul_value = 2, hdr_length = 6\<rparr>, []))]"
    by code_simp
  have log_b: "hw_log (snd (snd (snd ?b))) = hw_log (pending_read 10 0x20 10) @
      [Trace_hsspi_recv 16,
       Spi_sync (Some ?rd) [] 10 (Inr (\<lparr>flags = 0x20, ul_value = 2, hdr_length = 10\<rparr>, []))]"
    by code_simp
  have rd_a: "read_reply (last [Trace_hsspi_recv 16,
       Spi_sync (Some ?rd) [] 10 (Inr (\<lparr>flags = 0x20, ul_value = 2, hdr_length = 6\<rparr>, []))])
       = Some \<lparr>flags = 0x20, ul_value = 2, hdr_length = 6\<rparr>"
    by code_simp
  have rd_b: "read_reply (last [Trace_hsspi_recv 16,
       Spi_sync (Some ?rd) [] 10 (Inr (\<lparr>flags = 0x20, ul_value = 2, hdr_length = 10\<rparr>, []))])
       = Some \<lparr>flags = 0x20, ul_value = 2, hdr_length = 10\<rparr>"
    by code_simp
  have len: "prd_length (snd (snd (snd ?a))) = 10" "prd_length (snd (snd (snd ?b))) = 10"
    by code_simp+
  from hsspi_recv_read_phase [OF run_a log_a rd_a] hsspi_recv_read_phase [OF run_b log_b rd_b] len
  show ?thesis by (simp add: HSSPI_SOC_OA_def HSSPI_SOC_ODW_def)
qed

text \<open>The claim as stated fails: a pre-read of 10 bytes is pending, the device echoes
  length 10 without the out-active flag but with the data-waiting flag (\<open>0xA0\<close>); recv
  returns \<open>-EAGAIN\<close> and the pending-read state is reset, not kept.\<close>

theorem hsspi_recv_read_phase_counterexample:
  "fst (qm35_hsspi_recv (pending_read 10 0xA0 10) True True 16) = Inl EAGAIN
   \<and> \<not> prd_done (snd (snd (snd (qm35_hsspi_recv (pending_read 10 0xA0 10) True True 16))))
   \<and> read_reply (last (hw_log (snd (snd (snd
        (qm35_hsspi_recv (pending_read 10 0xA0 10) True True 16))))))
      = Some \<lparr>flags = 0xA0, ul_value = 2, hdr_length = 10\<rparr>"
  by code_simp

subsection \<open>Send\<close>

lemma hsspi_send_einval:
  "payload = None \<or> len = 0 \<Longrightarrow>
     qm35_hsspi_send s ul payload len do_prd = (Inl EINVAL, log_event Trace_hsspi_send s)"
  by (simp add: qm35_hsspi_send_def Let_def)

lemma hsspi_send_not_ready:
  "payload = Some b \<Longrightarrow> len \<noteq> 0 \<Longrightarrow>
   qm35_hsspi_wait_ready (log_event Trace_hsspi_send s) = (Inl e, s1) \<Longrightarrow>
     qm35_hsspi_send s ul payload len do_prd = (Inl e, s1)"
  by (simp add: qm35_hsspi_send_def Let_def)

lemma hsspi_send_bus_error:
  "payload = Some b \<Longrightarrow> len \<noteq> 0 \<Longrightarrow>
   qm35_hsspi_wait_ready (log_event Trace_hsspi_send s) = (Inr u, s1) \<Longrightarrow>
   spi_result (bus s1 (bus_pos s1)) = Inl e \<Longrightarrow>
     qm35_hsspi_send s ul payload len do_prd =
       (Inl e,
        snd (spi_sync (Some \<lparr>flags = HSSPI_HOST_WR OR (if do_prd then HSSPI_HOST_PRD else 0),
                              ul_value = ul, hdr_length = of_nat len\<rparr>) b len s1))"
  by (simp add: qm35_hsspi_send_def Let_def spi_sync_def)

lemma hsspi_send_exchange:
  "payload = Some b \<Longrightarrow> len \<noteq> 0 \<Longrightarrow>
   qm35_hsspi_wait_ready (log_event Trace_hsspi_send s) = (Inr u, s1) \<Longrightarrow>
   spi_result (bus s1 (bus_pos s1)) = Inr (h, d) \<Longrightarrow>
     qm35_hsspi_send s ul payload len do_prd =
       (if flags h = 0x00 \<or> flags h = 0xff then Inl EBUSY
        else if flags h AND HSSPI_SOC_RDY = 0 then Inl EAGAIN
        else Inr (),
        let s2 = snd (spi_sync (Some \<lparr>flags = HSSPI_HOST_WR OR (if do_prd then HSSPI_HOST_PRD else 0),
                              ul_value = ul, hdr_length = of_nat len\<rparr>) b len s1)
        in if do_prd \<and> flags h AND HSSPI_SOC_ODW \<noteq> 0 \<and> hdr_length h \<noteq> 0
           then s2\<lparr>prd_length := unat (hdr_length h), prd_done := True\<rparr>
           else s2)"
  by (simp add: qm35_hsspi_send_def Let_def spi_sync_def)

text \<open>
  Claim C6. A call of send whose last hardware action is a successful exchange has
  performed its full-duplex exchange; \<open>rh\<close> is the header echoed by the device. If its
  flags byte is \<open>0x00\<close> or \<open>0xFF\<close>, send returns \<open>-EBUSY\<close> (Busy: the device may be
  asleep); if it is neither and the ready bit is absent, send returns \<open>-EAGAIN\<close>
  (NotReady, retryable).
\<close>

theorem hsspi_send_echoed_flags:
  assumes run: "qm35_hsspi_send s ul payload len do_prd = (ret, s')"
    and lg: "hw_log s' = hw_log s @ evs"
    and ex: "last evs = Spi_sync txh buf n (Inr (rh, rx))"
  shows "(flags rh = 0x00 \<or> flags rh = 0xff \<longrightarrow> ret = Inl EBUSY)
       \<and> (flags rh \<noteq> 0x00 \<and> flags rh \<noteq> 0xff \<and> flags rh AND HSSPI_SOC_RDY = 0 \<longrightarrow>
            ret = Inl EAGAIN)"
proof (cases "payload = None \<or> len = 0")
  case True
  from hsspi_send_einval [OF True] run have "s' = log_event Trace_hsspi_send s" by simp
  with lg have "evs = [Trace_hsspi_send]" by (simp add: log_event_def)
  with ex show ?thesis by simp
next
  case False
  then obtain b where valid: "payload = Some b" "len \<noteq> 0" by auto
  obtain r1 s1 where w: "qm35_hsspi_wait_ready (log_event Trace_hsspi_send s) = (r1, s1)"
    by (rule prod.exhaust)
  from wait_ready_frame [OF w] obtain ws where
    ws: "hw_log s1 = hw_log s @ Trace_hsspi_send # ws" "list_all is_usleep ws"
    by (auto simp: log_event_def)
  define txh' where "txh' = \<lparr>flags = HSSPI_HOST_WR OR (if do_prd then HSSPI_HOST_PRD else 0),
                              ul_value = ul, hdr_length = of_nat len\<rparr>"
  show ?thesis
  proof (cases r1)
    case (Inl e)
    with hsspi_send_not_ready [OF valid] w run have "s' = s1" by simp
    with ws lg have "evs = [] @ Trace_hsspi_send # ws" by simp
    with last_usleeps [OF ws(2), of "[]" Trace_hsspi_send] ex show ?thesis by auto
  next
    case (Inr u)
    show ?thesis
    proof (cases "spi_result (bus s1 (bus_pos s1))")
      case (Inl e)
      from hsspi_send_bus_error [OF valid w [unfolded Inr] Inl] run
      have "hw_log s' = hw_log s1 @ [Spi_sync (Some txh') b len (Inl e)]"
        by (auto simp: Inl txh'_def)
      with ws lg have "evs = Trace_hsspi_send # ws @ [Spi_sync (Some txh') b len (Inl e)]"
        by simp
      with ex show ?thesis by simp
    next
      case r: (Inr p)
      obtain h d where p: "spi_result (bus s1 (bus_pos s1)) = Inr (h, d)"
        using r by (cases p) simp
      from hsspi_send_exchange [OF valid w [unfolded Inr] p] run
      have "hw_log s' = hw_log s1 @ [Spi_sync (Some txh') b len (Inr (h, d))]"
        and ret: "ret = (if flags h = 0x00 \<or> flags h = 0xff then Inl EBUSY
                           else if flags h AND HSSPI_SOC_RDY = 0 then Inl EAGAIN
                           else Inr ())"
        by (auto simp: p Let_def txh'_def)
      with ws lg have "evs = Trace_hsspi_send # ws @ [Spi_sync (Some txh') b len (Inr (h, d))]"
        by simp
      with ex have "rh = h" by simp
      with ret show ?thesis by simp
    qed
  qed
qed

text \<open>A sleeping device (every byte clocked in is \<open>0x00\<close>, or \<open>0xFF\<close>), and a device
  that answers with the out-active flag only.\<close>

theorem hsspi_send_echoed_flags_witness:
  "fst (qm35_hsspi_send (qm35_spi_probed (const_bus 0x00 0 False)) 2 (Some [1, 2]) 2 False)
     = Inl EBUSY
   \<and> fst (qm35_hsspi_send (qm35_spi_probed (const_bus 0xFF 0 False)) 2 (Some [1, 2]) 2 False)
     = Inl EBUSY
   \<and> fst (qm35_hsspi_send (qm35_spi_probed (const_bus 0x40 0 False)) 2 (Some [1, 2]) 2 False)
     = Inl EAGAIN"
proof -
  let ?a = "qm35_hsspi_send (qm35_spi_probed (const_bus 0x00 0 False)) 2 (Some [1, 2]) 2 False"
  let ?b = "qm35_hsspi_send (qm35_spi_probed (const_bus 0xFF 0 False)) 2 (Some [1, 2]) 2 False"
  let ?c = "qm35_hsspi_send (qm35_spi_probed (const_bus 0x40 0 False)) 2 (Some [1, 2]) 2 False"
  let ?wr = "\<lparr>flags = 0x80, ul_value = 2, hdr_length = 2\<rparr>"
  have run: "?a = (fst ?a, snd ?a)" "?b = (fst ?b, snd ?b)" "?c = (fst ?c, snd ?c)"
    by simp_all
  have log_a: "hw_log (snd ?a) = hw_log (qm35_spi_probed (const_bus 0x00 0 False)) @
      [Trace_hsspi_send,
       Spi_sync (Some ?wr) [1, 2] 2 (Inr (\<lparr>flags = 0x00, ul_value = 2, hdr_length = 0\<rparr>, []))]"
    by code_simp
  have log_b: "hw_log (snd ?b) = hw_log (qm35_spi_probed (const_bus 0xFF 0 False)) @
      [Trace_hsspi_send,
       Spi_sync (Some ?wr) [1, 2] 2 (Inr (\<lparr>flags = 0xFF, ul_value = 2, hdr_length = 0\<rparr>, []))]"
    by code_simp
  have log_c: "hw_log (snd ?c) = hw_log (qm35_spi_probed (const_bus 0x40 0 False)) @
      [Trace_hsspi_send,
       Spi_sync (Some ?wr) [1, 2] 2 (Inr (\<lparr>flags = 0x40, ul_value = 2, hdr_length = 0\<rparr>, []))]"
    by code_simp
  have ex: "last [Trace_hsspi_send, Spi_sync (Some ?wr) [1, 2] 2 r] = Spi_sync (Some ?wr) [1, 2] 2 r"
    for r by simp
  from hsspi_send_echoed_flags [OF run(1) log_a ex] hsspi_send_echoed_flags [OF run(2) log_b ex]
    hsspi_send_echoed_flags [OF run(3) log_c ex]
  show ?thesis by (simp add: HSSPI_SOC_RDY_def)
qed

subsection \<open>Wake-up\<close>

text \<open>
  Claim C8, as amended. When the EXTON (low-power) line is defined, wakeup is a no-op
  if the line reads awake, whether or not \<open>force\<close> is set, and the wake-up is performed
  if the line reads asleep or cannot be read; when no EXTON line is defined, wakeup is
  a no-op unless \<open>force\<close> is set. A wake-up that is performed is a pulse of 500 us on the
  WAKEUP line or, lacking one, a bus exchange without header and data, followed by the
  settle delay of 5000 us; the return value is that of the exchange (0 for the pulse).
\<close>

theorem hsspi_wakeup_steps:
  "(let awake = (if exton_gpio s then gpio_result (bus s (bus_pos s)) = Inr True else \<not> force);
        s1 = (if exton_gpio s then s\<lparr>bus_pos := bus_pos s + 1\<rparr> else s);
        rep = spi_result (bus s1 (bus_pos s1));
        r = qm35_hsspi_wakeup s force
    in (awake \<longrightarrow> r = (Inr (), s1))
     \<and> (\<not> awake \<and> wakeup_gpio s \<longrightarrow>
          fst r = Inr () \<and> bus_pos (snd r) = bus_pos s1 \<and>
          hw_log (snd r) = hw_log s @
            [Trace_hsspi_wakeup, Gpio_set Wakeup_gpio True, Usleep_range 500 600,
             Gpio_set Wakeup_gpio False, Usleep_range 5000 7500])
     \<and> (\<not> awake \<and> \<not> wakeup_gpio s \<longrightarrow>
          fst r = (case rep of Inl e \<Rightarrow> Inl e | Inr _ \<Rightarrow> Inr ()) \<and>
          bus_pos (snd r) = bus_pos s1 + 1 \<and>
          hw_log (snd r) = hw_log s @
            [Trace_hsspi_wakeup, Spi_sync None [] 0 rep, Usleep_range 5000 7500]))"
  by (auto simp: qm35_hsspi_wakeup_def Let_def log_event_def usleep_range_def gpiod_set_value_def
      gpiod_get_value_def spi_sync_def QM35_WAKEUP_DURATION_US_def QM35_WAKEUP_DELAY_US_def
      split: sum.splits prod.splits)

text \<open>EXTON defined and reading awake, forced: nothing is done. No EXTON line, forced:
  a pulse on the WAKEUP line when there is one, an empty exchange otherwise.\<close>

theorem hsspi_wakeup_steps_witness:
  "(let awake = (qm35_spi_probed (const_bus 0 0 True))\<lparr>exton_gpio := True\<rparr>;
        no_line = qm35_spi_probed (const_bus 0 0 False);
        pulse = no_line\<lparr>wakeup_gpio := True\<rparr>
    in qm35_hsspi_wakeup awake True = (Inr (), awake\<lparr>bus_pos := 1\<rparr>)
     \<and> hw_log (snd (qm35_hsspi_wakeup pulse True)) =
         [Trace_hsspi_wakeup, Gpio_set Wakeup_gpio True, Usleep_range 500 600,
          Gpio_set Wakeup_gpio False, Usleep_range 5000 7500]
     \<and> hw_log (snd (qm35_hsspi_wakeup no_line True)) =
         [Trace_hsspi_wakeup,
          Spi_sync None [] 0 (Inr (\<lparr>flags = 0, ul_value = 2, hdr_length = 0\<rparr>, [])),
          Usleep_range 5000 7500]
     \<and> qm35_hsspi_wakeup no_line False = (Inr (), no_line))"
  using
    hsspi_wakeup_steps
      [where s = "(qm35_spi_probed (const_bus 0 0 True))\<lparr>exton_gpio := True\<rparr>"
         and force = True]
    hsspi_wakeup_steps
      [where s = "(qm35_spi_probed (const_bus 0 0 False))\<lparr>wakeup_gpio := True\<rparr>"
         and force = True]
    hsspi_wakeup_steps [where s = "qm35_spi_probed (const_bus 0 0 False)" and force = True]
    hsspi_wakeup_steps [where s = "qm35_spi_probed (const_bus 0 0 False)" and force = False]
  by (simp add: qm35_spi_probed_def const_bus_def Let_def)

text \<open>The claim as stated fails: with an EXTON line that reads awake, a forced wakeup
  does nothing (no wake-up trace, no pulse, no exchange, no delay).\<close>

theorem hsspi_wakeup_force_counterexample:
  "fst (qm35_hsspi_wakeup ((qm35_spi_probed (const_bus 0 0 True))\<lparr>exton_gpio := True\<rparr>) True)
     = Inr ()
   \<and> hw_log (snd (qm35_hsspi_wakeup
        ((qm35_spi_probed (const_bus 0 0 True))\<lparr>exton_gpio := True\<rparr>) True)) = []"
  by code_simp

subsection \<open>Receive into a buffer that is too small\<close>



section \<open>Properties of the send orchestration\<close>

lemma wait_ready_loop_ready:
  "gpio_result (bus s (bus_pos s)) = Inr True \<Longrightarrow>
     wait_ready_loop (Suc n) s = (Inr (), s\<lparr>bus_pos := bus_pos s + 1\<rparr>)"
  by (simp add: gpiod_get_value_def)

lemma wait_ready_ok:
  assumes "gpio_result (bus s (bus_pos s)) = Inr True"
  shows "qm35_hsspi_wait_ready s =
     (Inr (), qm35_hsspi_delay (if ready_gpio s then s\<lparr>bus_pos := bus_pos s + 1\<rparr> else s))"
proof -
  have "wait_ready_loop 100 s = (Inr (), s\<lparr>bus_pos := bus_pos s + 1\<rparr>)"
    using wait_ready_loop_ready [OF assms, of 99] by (simp del: wait_ready_loop.simps)
  then show ?thesis
    by (simp add: qm35_hsspi_wait_ready_def)
qed

lemma send_attempt_busy:
  assumes exton: "\<not> exton_gpio s"
    and dbg: "qm35_debug_flags s AND QMSPI_COMBINED_WRITE = 0"
    and hw: "\<forall>k. spi_result (bus s k) = Inr (h, d) \<and> gpio_result (bus s k) = Inr True"
    and asleep: "flags h = 0x00 \<or> flags h = 0xff"
    and params: "data_out (send_params s) = Some b" "p_size (send_params s) \<noteq> 0"
  shows "\<exists>s'. qm35_enqueue_send s = (Inl EBUSY, s') \<and> same_cfg s s' \<and>
     hw_log s' = hw_log s @
       (if wakeup (send_params s)
        then [Trace_hsspi_wakeup] @
             (if wakeup_gpio s
              then [Gpio_set Wakeup_gpio True, Usleep_range 500 600, Gpio_set Wakeup_gpio False]
              else [Spi_sync None [] 0 (Inr (h, d))]) @
             [Usleep_range 5000 7500]
        else []) @
       [Trace_hsspi_send] @
       (if qm35_hsspi_delay_us s \<noteq> 0
        then [Usleep_range (unat (qm35_hsspi_delay_us s))
                  (unat (qm35_hsspi_delay_us s * 2))] else []) @
       [Spi_sync (Some \<lparr>flags = HSSPI_HOST_WR OR (if should_read s then HSSPI_HOST_PRD else 0),
                        ul_value = of_nat (p_type (send_params s)),
                        hdr_length = of_nat (p_size (send_params s))\<rparr>)
          b (p_size (send_params s)) (Inr (h, d))]"
proof -
  obtain rw sw where wk: "qm35_hsspi_wakeup s (wakeup (send_params s)) = (rw, sw)"
    by (rule prod.exhaust)
  from wk [symmetric] exton hw have sw: "same_cfg s sw"
    and lw: "hw_log sw = hw_log s @
       (if wakeup (send_params s)
        then [Trace_hsspi_wakeup] @
             (if wakeup_gpio s
              then [Gpio_set Wakeup_gpio True, Usleep_range 500 600, Gpio_set Wakeup_gpio False]
              else [Spi_sync None [] 0 (Inr (h, d))]) @
             [Usleep_range 5000 7500]
        else [])"
    by (auto simp: qm35_hsspi_wakeup_def Let_def log_event_def usleep_range_def gpiod_set_value_def
      spi_sync_def QM35_WAKEUP_DURATION_US_def QM35_WAKEUP_DELAY_US_def same_cfg_def
      split: if_splits)
  note c = sw [unfolded same_cfg_def]
  define s0 where "s0 = log_event Trace_hsspi_send sw"
  from hw c have "gpio_result (bus s0 (bus_pos s0)) = Inr True"
    by (simp add: s0_def log_event_def)
  note wr = wait_ready_ok [OF this]
  define s1 where "s1 = qm35_hsspi_delay (if ready_gpio s0 then s0\<lparr>bus_pos := bus_pos s0 + 1\<rparr> else s0)"
  have s1: "same_cfg s s1" "hw_log s1 = hw_log sw @ [Trace_hsspi_send] @
       (if qm35_hsspi_delay_us s \<noteq> 0
        then [Usleep_range (unat (qm35_hsspi_delay_us s))
                  (unat (qm35_hsspi_delay_us s * 2))] else [])"
    using c by (simp_all add: s1_def s0_def qm35_hsspi_delay_def usleep_range_def log_event_def
        same_cfg_def)
  from hw s1(1) have rep: "spi_result (bus s1 (bus_pos s1)) = Inr (h, d)"
    by (simp add: same_cfg_def)
  have send: "qm35_hsspi_send sw (of_nat (p_type (send_params sw))) (data_out (send_params sw))
      (p_size (send_params sw)) (should_read sw) =
       (Inl EBUSY,
        let s2 = snd (spi_sync (Some \<lparr>flags = HSSPI_HOST_WR OR (if should_read sw then HSSPI_HOST_PRD else 0),
                              ul_value = of_nat (p_type (send_params sw)),
                              hdr_length = of_nat (p_size (send_params sw))\<rparr>) b (p_size (send_params sw)) s1)
        in if should_read sw \<and> flags h AND HSSPI_SOC_ODW \<noteq> 0 \<and> hdr_length h \<noteq> 0
           then s2\<lparr>prd_length := unat (hdr_length h), prd_done := True\<rparr>
           else s2)"
    using hsspi_send_exchange [of "data_out (send_params sw)" b "p_size (send_params sw)" sw "()" s1 h d
        "of_nat (p_type (send_params sw))" "should_read sw"]
      params c wr rep asleep
    by (simp add: s0_def [symmetric] s1_def [symmetric])
  show ?thesis
    using wk send dbg c s1 lw rep
    by (simp add: qm35_enqueue_send_def qm35_send_work_def Let_def same_cfg_def spi_sync_def
        log_event_def)
qed


lemma spi_send_asleep_log:
  assumes exton: "\<not> exton_gpio s"
    and dbg: "qm35_debug_flags s AND QMSPI_COMBINED_WRITE = 0"
    and hw: "\<forall>k. spi_result (bus s k) = Inr (h, d) \<and> gpio_result (bus s k) = Inr True"
    and asleep: "flags h = 0x00 \<or> flags h = 0xff"
    and sz: "sz \<noteq> 0"
  shows
    "(let delay = (if qm35_hsspi_delay_us s \<noteq> 0
                   then [Usleep_range (unat (qm35_hsspi_delay_us s))
                             (unat (qm35_hsspi_delay_us s * 2))]
                   else []);
          attempt = [Trace_hsspi_send] @ delay @
             [Spi_sync (Some \<lparr>flags = HSSPI_HOST_WR OR (if should_read s then HSSPI_HOST_PRD else 0),
                              ul_value = of_nat type, hdr_length = of_nat sz\<rparr>)
                b sz (Inr (h, d))];
          wake = [Trace_hsspi_wakeup] @
             (if wakeup_gpio s
              then [Gpio_set Wakeup_gpio True, Usleep_range 500 600, Gpio_set Wakeup_gpio False]
              else [Spi_sync None [] 0 (Inr (h, d))]) @
             [Usleep_range 5000 7500];
          r = qm35_spi_send s type (Some b) sz (Inr ())
      in fst r = Inl EBUSY
       \<and> hw_log (snd r) = hw_log s @
            attempt @ [Usleep_range 50 100] @ wake @
            attempt @ [Usleep_range 100 200] @ wake @
            attempt @ [Usleep_range 200 400] @ wake @
            attempt @ [Pm_idle])"
proof -
  define delay where "delay = (if qm35_hsspi_delay_us s \<noteq> 0
                   then [Usleep_range (unat (qm35_hsspi_delay_us s))
                             (unat (qm35_hsspi_delay_us s * 2))]
                   else [])"
  define attempt where "attempt = [Trace_hsspi_send] @ delay @
             [Spi_sync (Some \<lparr>flags = HSSPI_HOST_WR OR (if should_read s then HSSPI_HOST_PRD else 0),
                              ul_value = of_nat type, hdr_length = of_nat sz\<rparr>)
                b sz (Inr (h, d))]"
  define wake where "wake = [Trace_hsspi_wakeup] @
             (if wakeup_gpio s
              then [Gpio_set Wakeup_gpio True, Usleep_range 500 600, Gpio_set Wakeup_gpio False]
              else [Spi_sync None [] 0 (Inr (h, d))]) @
             [Usleep_range 5000 7500]"
  define cfg where "cfg = (\<lambda>t :: qm35_spi. ready_gpio t = ready_gpio s \<and> wakeup_gpio t = wakeup_gpio s
      \<and> \<not> exton_gpio t \<and> should_read t = should_read s
      \<and> qm35_hsspi_delay_us t = qm35_hsspi_delay_us s
      \<and> qm35_debug_flags t = qm35_debug_flags s \<and> bus t = bus s
      \<and> data_out (send_params t) = Some b \<and> p_size (send_params t) = sz
      \<and> p_type (send_params t) = type)"
  have att: "\<exists>t'. qm35_enqueue_send t = (Inl EBUSY, t') \<and> cfg t'
      \<and> hw_log t' = hw_log t @ (if wakeup (send_params t) then wake else []) @ attempt"
    if "cfg t" for t
  proof -
    from that dbg hw sz
    have "\<not> exton_gpio t" "qm35_debug_flags t AND QMSPI_COMBINED_WRITE = 0"
      "\<forall>k. spi_result (bus t k) = Inr (h, d) \<and> gpio_result (bus t k) = Inr True"
      "data_out (send_params t) = Some b" "p_size (send_params t) \<noteq> 0"
      by (simp_all add: cfg_def)
    from send_attempt_busy [OF this(1,2,3) asleep this(4,5)] that show ?thesis
      by (auto simp: cfg_def same_cfg_def wake_def attempt_def delay_def)
  qed
  have step: "\<exists>t'. qm35_spi_send_retry (Inl EBUSY) rc dl t
        = qm35_spi_send_retry (Inl EBUSY) (rc - 1) (dl * 2) t' \<and> cfg t'
      \<and> hw_log t' = hw_log t @ [Usleep_range dl (2 * dl)] @ wake @ attempt"
    if "cfg t" "rc \<noteq> 0" for t rc dl
  proof -
    define u where "u = (usleep_range dl (2 * dl) t)
        \<lparr>send_params := (send_params (usleep_range dl (2 * dl) t))\<lparr>wakeup := True\<rparr>\<rparr>"
    from that(1) have "cfg u" and lu: "hw_log u = hw_log t @ [Usleep_range dl (2 * dl)]"
      and "wakeup (send_params u)"
      by (simp_all add: u_def cfg_def usleep_range_def log_event_def)
    from att [OF this(1)] this(3) lu obtain t' where
      t': "qm35_enqueue_send u = (Inl EBUSY, t')" "cfg t'"
        "hw_log t' = hw_log t @ [Usleep_range dl (2 * dl)] @ wake @ attempt"
      by auto
    from that have "qm35_spi_send_retry (Inl EBUSY) rc dl t
        = qm35_spi_send_retry (fst (qm35_enqueue_send u)) (rc - 1) (dl * 2)
            (snd (qm35_enqueue_send u))"
      by (subst qm35_spi_send_retry.simps)
         (simp add: Let_def u_def cfg_def usleep_range_def log_event_def)
    with t' show ?thesis by auto
  qed
  define t0 where "t0 = s\<lparr>send_params := \<lparr>data_out = Some b, data_in = False, p_size = sz,
                                  p_type = type, p_flags = 0, wakeup = False\<rparr>\<rparr>"
  from exton have c0: "cfg t0" by (simp add: cfg_def t0_def)
  from att [OF c0] obtain t1 where t1: "qm35_enqueue_send t0 = (Inl EBUSY, t1)" "cfg t1"
    "hw_log t1 = hw_log s @ attempt"
    by (auto simp: t0_def)
  from step [OF t1(2), of 3 50] obtain t2 where t2:
    "qm35_spi_send_retry (Inl EBUSY) 3 50 t1 = qm35_spi_send_retry (Inl EBUSY) 2 100 t2"
    "cfg t2" "hw_log t2 = hw_log t1 @ [Usleep_range 50 100] @ wake @ attempt"
    by auto
  from step [OF t2(2), of 2 100] obtain t3 where t3:
    "qm35_spi_send_retry (Inl EBUSY) 2 100 t2 = qm35_spi_send_retry (Inl EBUSY) 1 200 t3"
    "cfg t3" "hw_log t3 = hw_log t2 @ [Usleep_range 100 200] @ wake @ attempt"
    by auto
  from step [OF t3(2), of 1 200] obtain t4 where t4:
    "qm35_spi_send_retry (Inl EBUSY) 1 200 t3 = qm35_spi_send_retry (Inl EBUSY) 0 400 t4"
    "cfg t4" "hw_log t4 = hw_log t3 @ [Usleep_range 200 400] @ wake @ attempt"
    by auto
  have last: "qm35_spi_send_retry (Inl EBUSY) 0 400 t4 = (Inl EBUSY, - 1, t4)"
    by (subst qm35_spi_send_retry.simps) simp
  from t2(1) t3(1) t4(1) last
  have loop: "qm35_spi_send_retry (Inl EBUSY) 3 50 t1 = (Inl EBUSY, - 1, t4)" by simp
  from dbg have d0: "qm35_debug_flags t0 AND QMSPI_COMBINED_WRITE = 0"
    by (simp add: t0_def)
  have "qm35_spi_send s type (Some b) sz (Inr ()) = (Inl EBUSY, log_event Pm_idle t4)"
    by (simp add: d0 qm35_spi_send_def Let_def t0_def [symmetric] t1(1) loop
        QM35_HSSPI_RETRY_COUNT_def QM35_HSSPI_RETRY_DELAY_US_def)
  with t1(3) t2(3) t3(3) t4(3) show ?thesis
    unfolding Let_def delay_def [symmetric] attempt_def [symmetric] wake_def [symmetric]
    by (simp add: log_event_def)
qed

text \<open>
  Claim C4, as amended. The device has no EXTON (low-power) line, combined writes are
  off, and the device is asleep: every exchange echoes the same header, whose flags are
  \<open>0x00\<close> or \<open>0xFF\<close> (the READY line, if there is one, reads ready). Then a send of a
  non-empty payload, after a successful resume, makes \<open>RetryCount + 1 = 4\<close> send
  attempts, each observing Busy: the first, then \<open>RetryCount = 3\<close> retries. Before
  each retry it sleeps the backoff delay, which doubles from 50 us (50, 100, 200), and
  forces a wake-up, so three wake-ups are forced (the first after the first Busy).
  It then requests idle and fails with \<open>-EBUSY\<close>.
\<close>

theorem spi_send_sleeping_device:
  assumes exton: "\<not> exton_gpio s"
    and dbg: "qm35_debug_flags s AND QMSPI_COMBINED_WRITE = 0"
    and hw: "\<forall>k. spi_result (bus s k) = Inr (h, d) \<and> gpio_result (bus s k) = Inr True"
    and asleep: "flags h = 0x00 \<or> flags h = 0xff"
    and sz: "sz \<noteq> 0"
  shows
    "(let delay = (if qm35_hsspi_delay_us s \<noteq> 0
                   then [Usleep_range (unat (qm35_hsspi_delay_us s))
                             (unat (qm35_hsspi_delay_us s * 2))]
                   else []);
          attempt = [Trace_hsspi_send] @ delay @
             [Spi_sync (Some \<lparr>flags = HSSPI_HOST_WR OR (if should_read s then HSSPI_HOST_PRD else 0),
                              ul_value = of_nat type, hdr_length = of_nat sz\<rparr>)
                b sz (Inr (h, d))];
          wake = [Trace_hsspi_wakeup] @
             (if wakeup_gpio s
              then [Gpio_set Wakeup_gpio True, Usleep_range 500 600, Gpio_set Wakeup_gpio False]
              else [Spi_sync None [] 0 (Inr (h, d))]) @
             [Usleep_range 5000 7500];
          new = attempt @ [Usleep_range 50 100] @ wake @
                attempt @ [Usleep_range 100 200] @ wake @
                attempt @ [Usleep_range 200 400] @ wake @
                attempt @ [Pm_idle];
          r = qm35_spi_send s type (Some b) sz (Inr ())
      in fst r = Inl EBUSY
       \<and> hw_log (snd r) = hw_log s @ new
       \<and> count_list new Trace_hsspi_send = QM35_HSSPI_RETRY_COUNT + 1
       \<and> count_list new Trace_hsspi_wakeup = QM35_HSSPI_RETRY_COUNT)"
  using spi_send_asleep_log [OF assms, of type b]
  by (simp add: Let_def QM35_HSSPI_RETRY_COUNT_def)

text \<open>A probed device without optional lines, asleep.\<close>

theorem spi_send_sleeping_device_witness:
  "fst (qm35_spi_send (qm35_spi_probed (const_bus 0x00 0 True)) 2 (Some [1, 2]) 2 (Inr ()))
     = Inl EBUSY
   \<and> count_list (hw_log (snd (qm35_spi_send (qm35_spi_probed (const_bus 0x00 0 True)) 2
        (Some [1, 2]) 2 (Inr ())))) Trace_hsspi_wakeup = 3
   \<and> count_list (hw_log (snd (qm35_spi_send (qm35_spi_probed (const_bus 0x00 0 True)) 2
        (Some [1, 2]) 2 (Inr ())))) Trace_hsspi_send = 4"
proof -
  let ?s = "qm35_spi_probed (const_bus 0x00 0 True)"
  have exton: "\<not> exton_gpio ?s" and dbg: "qm35_debug_flags ?s AND QMSPI_COMBINED_WRITE = 0"
    by (simp_all add: qm35_spi_probed_def QMSPI_COMBINED_WRITE_def)
  have hw: "\<forall>k. spi_result (bus ?s k) = Inr (\<lparr>flags = 0x00, ul_value = 2, hdr_length = 0\<rparr>, [])
      \<and> gpio_result (bus ?s k) = Inr True"
    by (simp add: qm35_spi_probed_def const_bus_def)
  have asleep: "flags \<lparr>flags = 0x00, ul_value = 2, hdr_length = 0 :: u16\<rparr> = 0x00
      \<or> flags \<lparr>flags = 0x00, ul_value = 2, hdr_length = 0 :: u16\<rparr> = 0xff"
    by simp
  have sz: "(2 :: nat) \<noteq> 0" by simp
  from spi_send_sleeping_device [OF exton dbg hw asleep sz, of 2 "[1, 2]"]
  show ?thesis by (simp add: Let_def qm35_spi_probed_def)
qed

text \<open>The claim as stated fails: against a device that stays asleep (every exchange
  echoes \<open>0xFF\<close>), with no EXTON line, send forces three wake-ups, not one, and makes
  four send attempts, not \<open>RetryCount = 3\<close>.\<close>

theorem spi_send_retry_counterexample:
  "fst (qm35_spi_send (qm35_spi_probed (const_bus 0xFF 0 True)) 2 (Some [1, 2]) 2 (Inr ()))
     = Inl EBUSY
   \<and> count_list (hw_log (snd (qm35_spi_send (qm35_spi_probed (const_bus 0xFF 0 True)) 2
        (Some [1, 2]) 2 (Inr ())))) Trace_hsspi_wakeup = 3
   \<and> count_list (hw_log (snd (qm35_spi_send (qm35_spi_probed (const_bus 0xFF 0 True)) 2
        (Some [1, 2]) 2 (Inr ())))) Trace_hsspi_send = 4"
proof -
  let ?s = "qm35_spi_probed (const_bus 0xFF 0 True)"
  have exton: "\<not> exton_gpio ?s" and dbg: "qm35_debug_flags ?s AND QMSPI_COMBINED_WRITE = 0"
    by (simp_all add: qm35_spi_probed_def QMSPI_COMBINED_WRITE_def)
  have hw: "\<forall>k. spi_result (bus ?s k) = Inr (\<lparr>flags = 0xFF, ul_value = 2, hdr_length = 0\<rparr>, [])
      \<and> gpio_result (bus ?s k) = Inr True"
    by (simp add: qm35_spi_probed_def const_bus_def)
  have asleep: "flags \<lparr>flags = 0xFF, ul_value = 2, hdr_length = 0 :: u16\<rparr> = 0x00
      \<or> flags \<lparr>flags = 0xFF, ul_value = 2, hdr_length = 0 :: u16\<rparr> = 0xff"
    by simp
  have sz: "(2 :: nat) \<noteq> 0" by simp
  from spi_send_asleep_log [OF exton dbg hw asleep sz, of 2 "[1, 2]"]
  show ?thesis by (simp add: Let_def qm35_spi_probed_def)
qed

section \<open>The pending-read state\<close>

lemma prd_reply_prd:
  "flags rh AND HSSPI_SOC_ODW \<noteq> 0 \<Longrightarrow> hdr_length rh \<noteq> 0 \<Longrightarrow>
   prd_reply (Spi_sync (Some \<lparr>flags = HSSPI_HOST_PRD, ul_value = 0, hdr_length = 0\<rparr>) buf n
                (Inr (rh, rx))) = Some rh"
  "flags rh AND HSSPI_SOC_ODW \<noteq> 0 \<Longrightarrow> hdr_length rh \<noteq> 0 \<Longrightarrow>
   prd_reply (Spi_sync (Some \<lparr>flags = HSSPI_HOST_WR OR HSSPI_HOST_PRD, ul_value = ul,
                               hdr_length = l\<rparr>) buf n (Inr (rh, rx))) = Some rh"
  by (simp_all add: HSSPI_HOST_PRD_def HSSPI_HOST_WR_def)

lemma pre_read_inI:
  assumes "hw_log s' = hw_log s @ xs @ e # ys" and "prd_reply e = Some rh"
    and "prd_length s' = unat (hdr_length rh)"
  shows "pre_read_in s s'"
  using assms by (simp add: pre_read_in_def list_ex_iff)

lemma hsspi_send_pending:
  assumes run: "qm35_hsspi_send s ul payload len do_prd = (ret, s')"
  shows "prd_done s' \<and> \<not> prd_done s \<longrightarrow> pre_read_in s s'"
proof (cases "payload = None \<or> len = 0")
  case True
  from hsspi_send_einval [OF True] run have "s' = log_event Trace_hsspi_send s" by simp
  then show ?thesis by (simp add: log_event_def)
next
  case False
  then obtain b where valid: "payload = Some b" "len \<noteq> 0" by auto
  obtain r1 s1 where w: "qm35_hsspi_wait_ready (log_event Trace_hsspi_send s) = (r1, s1)"
    by (rule prod.exhaust)
  from wait_ready_frame [OF w] obtain ws where
    sd: "same_dev (log_event Trace_hsspi_send s) s1"
    and ws: "hw_log s1 = hw_log s @ Trace_hsspi_send # ws"
    by (auto simp: log_event_def)
  from sd have pd: "prd_done s1 = prd_done s"
    by (simp add: same_dev_def log_event_def)
  show ?thesis
  proof (cases r1)
    case (Inl e)
    with hsspi_send_not_ready [OF valid] w run have "s' = s1" by simp
    with pd show ?thesis by simp
  next
    case (Inr u)
    show ?thesis
    proof (cases "spi_result (bus s1 (bus_pos s1))")
      case (Inl e)
      from hsspi_send_bus_error [OF valid w [unfolded Inr] Inl] run pd
      have "prd_done s' = prd_done s" by (auto simp: spi_sync_def Let_def log_event_def)
      then show ?thesis by simp
    next
      case r: (Inr p)
      obtain h d where p: "spi_result (bus s1 (bus_pos s1)) = Inr (h, d)"
        using r by (cases p) simp
      note ex = hsspi_send_exchange [OF valid w [unfolded Inr] p, of ul do_prd]
      show ?thesis
      proof (cases "do_prd \<and> flags h AND HSSPI_SOC_ODW \<noteq> 0 \<and> hdr_length h \<noteq> 0")
        case True
        with ex run ws p have "hw_log s' = hw_log s @ (Trace_hsspi_send # ws) @
            Spi_sync (Some \<lparr>flags = HSSPI_HOST_WR OR HSSPI_HOST_PRD, ul_value = ul,
                              hdr_length = of_nat len\<rparr>) b len (Inr (h, d)) # []"
          and "prd_length s' = unat (hdr_length h)"
          by (auto simp: Let_def)
        moreover from True have "prd_reply (Spi_sync (Some \<lparr>flags = HSSPI_HOST_WR OR HSSPI_HOST_PRD,
            ul_value = ul, hdr_length = of_nat len\<rparr>) b len (Inr (h, d))) = Some h"
          by (intro prd_reply_prd) simp_all
        ultimately have "pre_read_in s s'" by (intro pre_read_inI)
        then show ?thesis by simp
      next
        case False
        with ex run pd have "prd_done s' = prd_done s"
          by (auto simp: Let_def spi_sync_def log_event_def)
        then show ?thesis by simp
      qed
    qed
  qed
qed


lemma hsspi_recv_entry_error:
  assumes "(if \<not> header_ok then (Inl EINVAL, s0)
            else if data_ok \<and> sz = 0 then (Inl EINVAL, s0)
            else if \<not> \<not> data_ok then qm35_hsspi_wait_ready s0
            else (Inr (), s0)) = (Inl e, s1)"
  shows "e = EINVAL \<or> e = EAGAIN \<or> (\<exists>k. gpio_result (bus s0 k) = Inl e)"
proof (cases "header_ok \<and> \<not> (data_ok \<and> sz = 0) \<and> data_ok")
  case True
  with assms have "qm35_hsspi_wait_ready s0 = (Inl e, s1)" by simp
  from wait_ready_error [OF this] show ?thesis by simp
next
  case False
  with assms show ?thesis by (auto split: if_splits)
qed

lemma hw_error_not_mismatch:
  assumes "\<forall>k. spi_result (bus s k) \<noteq> Inl EPROTO \<and> spi_result (bus s k) \<noteq> Inl EMSGSIZE
               \<and> gpio_result (bus s k) \<noteq> Inl EPROTO \<and> gpio_result (bus s k) \<noteq> Inl EMSGSIZE"
    and "e = EINVAL \<or> e = EAGAIN \<or> (\<exists>k. gpio_result (bus s k) = Inl e)
           \<or> (\<exists>k. spi_result (bus s k) = Inl e)"
  shows "e \<noteq> EPROTO \<and> e \<noteq> EMSGSIZE"
  using assms by blast

lemma hsspi_recv_pending:
  assumes run: "qm35_hsspi_recv s header_ok data_ok sz = (ret, hdo, d, s')"
  shows "(prd_done s' \<and> \<not> prd_done s \<longrightarrow> pre_read_in s s')
       \<and> ((\<forall>k. spi_result (bus s k) \<noteq> Inl EPROTO \<and> spi_result (bus s k) \<noteq> Inl EMSGSIZE
               \<and> gpio_result (bus s k) \<noteq> Inl EPROTO \<and> gpio_result (bus s k) \<noteq> Inl EMSGSIZE)
            \<and> (ret = Inl EPROTO \<or> ret = Inl EMSGSIZE) \<longrightarrow> \<not> prd_done s')"
    (is "?valid \<and> (?hw_ok \<and> ?mismatch \<longrightarrow> _)")
proof -
  define s0 where "s0 = log_event (Trace_hsspi_recv sz) s"
  have l0: "hw_log s0 = hw_log s @ [Trace_hsspi_recv sz]" and b0: "bus s0 = bus s"
    and p0: "prd_done s0 = prd_done s"
    by (simp_all add: s0_def log_event_def)
  obtain r1 s1 where entry:
    "(if \<not> header_ok then (Inl EINVAL, s0)
      else if data_ok \<and> sz = 0 then (Inl EINVAL, s0)
      else if \<not> \<not> data_ok then qm35_hsspi_wait_ready s0
      else (Inr (), s0)) = (r1, s1)"
    by (rule prod.exhaust)
  from hsspi_recv_entry [OF entry] l0 obtain ws1 where
    sd1: "same_dev s0 s1" and l1: "hw_log s1 = hw_log s @ Trace_hsspi_recv sz # ws1"
    by auto
  note f1 = same_dev_fields [OF sd1]
  from f1 b0 p0 have b1: "bus s1 = bus s" and p1: "prd_done s1 = prd_done s" by simp_all
  from run [symmetric] have eq:
    "(ret, hdo, d, s') =
       (case r1 of
          Inl e \<Rightarrow> (Inl e, None, [], s1)
        | Inr _ \<Rightarrow>
            if \<not> prd_done s1
            then (case qm35_hsspi_prd s1 (\<not> data_ok) of
                    (Inl e, header, s2) \<Rightarrow> (Inl e, header, [], s2)
                  | (Inr _, header, s2) \<Rightarrow>
                      if \<not> data_ok then (Inr 0, header, [], s2)
                      else hsspi_recv_read s2 header sz)
            else hsspi_recv_read s1 None sz)"
    unfolding qm35_hsspi_recv_def Let_def s0_def [symmetric] entry
    by (cases r1) simp_all
  have read_phase: "(prd_done s' \<longrightarrow> prd_done s2) \<and> prd_length s' = prd_length s2
        \<and> (\<exists>ys. hw_log s' = hw_log s2 @ ys) \<and> (?hw_ok \<and> ?mismatch \<longrightarrow> \<not> prd_done s')"
    if rr: "hsspi_recv_read s2 h2 sz = (ret, hdo, d, s')" and b2: "bus s2 = bus s"
    for s2 h2
    using rr
  proof (cases rule: hsspi_recv_read_cases)
    case too_small
    then show ?thesis by simp
  next
    case (not_ready e ws)
    have "e \<noteq> EPROTO \<and> e \<noteq> EMSGSIZE" if ?hw_ok
      using that not_ready(7) by (intro hw_error_not_mismatch [of s]) (auto simp: b2)
    with not_ready(3) have "?hw_ok \<and> ?mismatch \<longrightarrow> \<not> prd_done s'" by blast
    with not_ready show ?thesis by simp
  next
    case (bus_error e ws tx buf n)
    have "e \<noteq> EPROTO \<and> e \<noteq> EMSGSIZE" if ?hw_ok
      using that bus_error(7) by (intro hw_error_not_mismatch [of s]) (auto simp: b2)
    with bus_error(3) have "?hw_ok \<and> ?mismatch \<longrightarrow> \<not> prd_done s'" by blast
    with bus_error show ?thesis by simp
  next
    case (exchange ws tx buf n rh rx)
    then show ?thesis by (simp split: if_splits)
  qed
  show ?thesis
  proof (cases r1)
    case (Inl e)
    with eq have s': "s' = s1" "ret = Inl e" by simp_all
    have "e \<noteq> EPROTO \<and> e \<noteq> EMSGSIZE" if ?hw_ok
      using that hsspi_recv_entry_error [OF entry [unfolded Inl]]
      by (intro hw_error_not_mismatch [of s]) (auto simp: b0)
    with s'(2) have "?hw_ok \<and> ?mismatch \<longrightarrow> \<not> prd_done s'" by blast
    with s' p1 show ?thesis by simp
  next
    case (Inr u)
    show ?thesis
    proof (cases "prd_done s1")
      case True
      with eq Inr have "hsspi_recv_read s1 None sz = (ret, hdo, d, s')" by simp
      from read_phase [OF this b1] p1 True show ?thesis by simp
    next
      case False
      obtain r2 h2 s2 where prd: "qm35_hsspi_prd s1 (\<not> data_ok) = (r2, h2, s2)"
        by (cases "qm35_hsspi_prd s1 (\<not> data_ok)")
      note pc = hsspi_prd_cases [OF prd]
      show ?thesis
      proof (cases "spi_result (bus s1 (bus_pos s1))")
        case (Inl e)
        with pc have "r2 = Inl e" "same_dev s1 s2" by simp_all
        with eq Inr False prd have "s' = s2" "\<not> prd_done s2"
          by (simp_all add: same_dev_def)
        then show ?thesis by simp
      next
        case rep': (Inr p)
        obtain rh rx where rep: "spi_result (bus s1 (bus_pos s1)) = Inr (rh, rx)"
          using rep' by (cases p) simp
        show ?thesis
        proof (cases "\<not> data_ok \<or> flags rh AND HSSPI_SOC_ODW = 0 \<or> hdr_length rh = 0")
          case bad: True
          with pc rep have sd2: "same_dev s1 s2" and r2: "\<not> data_ok \<or> r2 = Inl EAGAIN"
            by (auto split: if_splits)
          from sd2 False have "\<not> prd_done s2" by (simp add: same_dev_def)
          moreover from eq Inr False prd r2 have "s' = s2"
            by (cases r2) (auto split: if_splits)
          ultimately show ?thesis by simp
        next
          case good: False
          with pc rep have r2: "r2 = Inr ()" and s2: "prd_length s2 = unat (hdr_length rh)"
            "same_dev (s1\<lparr>prd_done := True, prd_length := unat (hdr_length rh)\<rparr>) s2"
            by simp_all
          from good have ann: "flags rh AND HSSPI_SOC_ODW \<noteq> 0" "hdr_length rh \<noteq> 0"
            and dok: data_ok by simp_all
          from eq Inr False prd r2 dok
          have rr: "hsspi_recv_read s2 h2 sz = (ret, hdo, d, s')" by simp
          from s2(2) b1 have b2: "bus s2 = bus s" by (simp add: same_dev_def)
          from pc dok rep l1 have l2: "hw_log s2 = hw_log s @ (Trace_hsspi_recv sz # ws1) @
              [Spi_sync (Some \<lparr>flags = HSSPI_HOST_PRD, ul_value = 0, hdr_length = 0\<rparr>) [] 0
                 (Inr (rh, rx))]"
            by simp
          from read_phase [OF rr b2] obtain ys where
            rp: "prd_length s' = prd_length s2" "hw_log s' = hw_log s2 @ ys"
              "?hw_ok \<and> ?mismatch \<longrightarrow> \<not> prd_done s'"
            by blast
          from rp(2) l2 have "hw_log s' = hw_log s @ (Trace_hsspi_recv sz # ws1) @
              Spi_sync (Some \<lparr>flags = HSSPI_HOST_PRD, ul_value = 0, hdr_length = 0\<rparr>) [] 0
                 (Inr (rh, rx)) # ys"
            by simp
          moreover from ann have "prd_reply (Spi_sync (Some \<lparr>flags = HSSPI_HOST_PRD,
              ul_value = 0, hdr_length = 0\<rparr>) [] 0 (Inr (rh, rx))) = Some rh"
            by (rule prd_reply_prd)
          moreover from rp(1) s2(1) have "prd_length s' = unat (hdr_length rh)" by simp
          ultimately have "pre_read_in s s'" by (rule pre_read_inI)
          with rp(3) show ?thesis by simp
        qed
      qed
    qed
  qed
qed

lemma spi_recv_failure:
  "qm35_spi_recv s data_ok sz (Inr u) = (Inl e, out, rx, s') \<Longrightarrow> \<not> prd_done s'"
  by (auto simp: qm35_spi_recv_def log_event_def split: prod.splits sum.splits)

text \<open>
  Claim C3, as amended. PendingReadState (\<open>prd_done\<close>, \<open>prd_length\<close>) becomes valid
  only through a successful pre-read: when a send or a recv leaves it valid and it was
  not valid before, the call has made an exchange with the PRE-READ bit whose reply had
  the data-waiting flag and a non-zero length, and that length is the one pending.
  The framing recv leaves it invalid whenever it returns \<open>-EPROTO\<close> (protocol mismatch)
  or \<open>-EMSGSIZE\<close> (these being the engine's own errors: the bus primitive and the GPIO
  reads do not fail with these two codes), and the orchestrator's recv leaves it invalid
  whenever it fails after the device was resumed.
\<close>

theorem pending_read_state:
  assumes send: "qm35_hsspi_send s ul payload len do_prd = (r1, s1)"
    and recv: "qm35_hsspi_recv s header_ok data_ok sz = (r2, hdo, d, s2)"
    and orch: "qm35_spi_recv s data_ok sz (Inr ()) = (r3, out, rx, s3)"
  shows "(prd_done s1 \<and> \<not> prd_done s \<longrightarrow> pre_read_in s s1)
       \<and> (prd_done s2 \<and> \<not> prd_done s \<longrightarrow> pre_read_in s s2)
       \<and> ((\<forall>k. spi_result (bus s k) \<noteq> Inl EPROTO \<and> spi_result (bus s k) \<noteq> Inl EMSGSIZE
               \<and> gpio_result (bus s k) \<noteq> Inl EPROTO \<and> gpio_result (bus s k) \<noteq> Inl EMSGSIZE)
            \<and> (r2 = Inl EPROTO \<or> r2 = Inl EMSGSIZE) \<longrightarrow> \<not> prd_done s2)
       \<and> (\<forall>e. r3 = Inl e \<longrightarrow> \<not> prd_done s3)"
  using hsspi_send_pending [OF send] hsspi_recv_pending [OF recv] orch
  by (auto dest: spi_recv_failure)

text \<open>A send with pre-read to a device that has ten bytes waiting; a recv whose
  pre-read announces ten bytes and whose read is answered without the out-active flag;
  a recv, with ten bytes pending, that reads a header of length six, directly and
  through the orchestrator.\<close>

theorem pending_read_state_witness:
  "prd_done (snd (qm35_hsspi_send (qm35_spi_probed (const_bus 0xA0 10 False)) 2
               (Some [1, 2]) 2 True))
   \<and> pre_read_in (qm35_spi_probed (const_bus 0xA0 10 False))
        (snd (qm35_hsspi_send (qm35_spi_probed (const_bus 0xA0 10 False)) 2 (Some [1, 2]) 2 True))
   \<and> pre_read_in (qm35_spi_probed (seq_bus [(0x80, 10), (0x20, 10)]))
        (snd (snd (snd (qm35_hsspi_recv (qm35_spi_probed (seq_bus [(0x80, 10), (0x20, 10)]))
                          True True 16))))
   \<and> fst (qm35_hsspi_recv (pending_read 10 0x20 6) True True 16) = Inl EPROTO
   \<and> \<not> prd_done (snd (snd (snd (qm35_hsspi_recv (pending_read 10 0x20 6) True True 16))))
   \<and> fst (qm35_spi_recv (pending_read 10 0x20 6) True 16 (Inr ())) = Inl EPROTO
   \<and> \<not> prd_done (snd (snd (snd (qm35_spi_recv (pending_read 10 0x20 6) True 16 (Inr ())))))"
proof -
  let ?a = "qm35_spi_probed (const_bus 0xA0 10 False)"
  let ?b = "qm35_spi_probed (seq_bus [(0x80, 10), (0x20, 10)])"
  let ?c = "pending_read 10 0x20 6"
  have run: "f = (fst f, snd f)" "g = (fst g, fst (snd g), fst (snd (snd g)), snd (snd (snd g)))"
    for f :: "(errno + unit) \<times> qm35_spi"
    and g :: "(errno + nat) \<times> 'x \<times> u8 list \<times> qm35_spi"
    by simp_all
  have a: "prd_done (snd (qm35_hsspi_send ?a 2 (Some [1, 2]) 2 True))" "\<not> prd_done ?a"
    by code_simp+
  have b: "prd_done (snd (snd (snd (qm35_hsspi_recv ?b True True 16))))" "\<not> prd_done ?b"
    by code_simp+
  have c: "fst (qm35_hsspi_recv ?c True True 16) = Inl EPROTO"
    "fst (qm35_spi_recv ?c True 16 (Inr ())) = Inl EPROTO"
    by code_simp+
  have hw: "\<forall>k. spi_result (bus ?c k) \<noteq> Inl EPROTO \<and> spi_result (bus ?c k) \<noteq> Inl EMSGSIZE
      \<and> gpio_result (bus ?c k) \<noteq> Inl EPROTO \<and> gpio_result (bus ?c k) \<noteq> Inl EMSGSIZE"
    by (simp add: pending_read_def qm35_spi_probed_def const_bus_def)
  from pending_read_state [OF run(1) [of "qm35_hsspi_send ?a 2 (Some [1, 2]) 2 True"]
      run(2) [of "qm35_hsspi_recv ?a True True 16"] run(2) [of "qm35_spi_recv ?a True 16 (Inr ())"]]
    pending_read_state [OF run(1) [of "qm35_hsspi_send ?b 2 (Some [1, 2]) 2 True"]
      run(2) [of "qm35_hsspi_recv ?b True True 16"] run(2) [of "qm35_spi_recv ?b True 16 (Inr ())"]]
    pending_read_state [OF run(1) [of "qm35_hsspi_send ?c 2 (Some [1, 2]) 2 True"]
      run(2) [of "qm35_hsspi_recv ?c True True 16"] run(2) [of "qm35_spi_recv ?c True 16 (Inr ())"]]
    a b c hw
  show ?thesis by simp
qed

text \<open>The claim as stated fails. A send with pre-read to a device that is not ready
  but has ten bytes waiting (flags \<open>0x80\<close>) returns \<open>-EAGAIN\<close> and leaves the
  pending-read state valid. A recv whose pre-read announces ten bytes and whose read
  is answered with the ready flag only returns \<open>-EAGAIN\<close> and leaves it valid too.\<close>

theorem pending_read_state_counterexample:
  "fst (qm35_hsspi_send (qm35_spi_probed (const_bus 0x80 10 False)) 2 (Some [1, 2]) 2 True)
     = Inl EAGAIN
   \<and> prd_done (snd (qm35_hsspi_send (qm35_spi_probed (const_bus 0x80 10 False)) 2
                 (Some [1, 2]) 2 True))
   \<and> fst (qm35_hsspi_recv (qm35_spi_probed (seq_bus [(0x80, 10), (0x20, 10)])) True True 16)
     = Inl EAGAIN
   \<and> prd_done (snd (snd (snd (qm35_hsspi_recv
        (qm35_spi_probed (seq_bus [(0x80, 10), (0x20, 10)])) True True 16))))"
  by code_simp

end
